theory Spec2Isabelle
  imports Complex_Main "HOL-Library.Sublist"
begin

section \<open>Text\<close>

text \<open>
  A Python \<open>str\<close> is modelled as a \<^typ>\<open>string\<close> holding its UTF-8 encoding, one
  \<^typ>\<open>char\<close> per byte. \<open>startswith\<close>, \<open>in\<close> and \<open>split('\n')\<close> act on the encoding
  exactly as they act on the code points; \<open>strip\<close> and \<open>len\<close> are written out for
  the encoding below.
\<close>

definition startswith :: "string \<Rightarrow> string \<Rightarrow> bool" where
  "startswith s p = prefix p s"

text \<open>\<open>str_in p s\<close> is Python's \<open>p in s\<close> on two strings.\<close>

definition str_in :: "string \<Rightarrow> string \<Rightarrow> bool" where
  "str_in p s = sublist p s"

text \<open>\<open>s.split('\n')\<close>: never empty, one more piece than there are line feeds.\<close>

fun split_nl :: "string \<Rightarrow> string list" where
  "split_nl [] = [[]]"
| "split_nl (c # cs) =
     (if c = CHR 0x0A then [] # split_nl cs
      else (case split_nl cs of [] \<Rightarrow> [[c]] | l # ls \<Rightarrow> (c # l) # ls))"

text \<open>
  The code points for which \<open>str.isspace\<close> holds, by the length of their encoding:
  U+0009..U+000D, U+001C..U+0020; U+0085, U+00A0; U+1680, U+2000..U+200A, U+2028,
  U+2029, U+202F, U+205F, U+3000.
\<close>

definition ws1 :: "char \<Rightarrow> bool" where
  "ws1 a = (let n = (of_char a :: nat) in (9 \<le> n \<and> n \<le> 13) \<or> (28 \<le> n \<and> n \<le> 32))"

definition ws2 :: "char \<Rightarrow> char \<Rightarrow> bool" where
  "ws2 a b = (a = CHR 0xC2 \<and> (b = CHR 0x85 \<or> b = CHR 0xA0))"

definition ws3 :: "char \<Rightarrow> char \<Rightarrow> char \<Rightarrow> bool" where
  "ws3 a b c =
     ((a = CHR 0xE1 \<and> b = CHR 0x9A \<and> c = CHR 0x80) \<or>
      (a = CHR 0xE2 \<and> b = CHR 0x80 \<and>
         ((128 \<le> (of_char c :: nat) \<and> (of_char c :: nat) \<le> 138) \<or>
          c = CHR 0xA8 \<or> c = CHR 0xA9 \<or> c = CHR 0xAF)) \<or>
      (a = CHR 0xE2 \<and> b = CHR 0x81 \<and> c = CHR 0x9F) \<or>
      (a = CHR 0xE3 \<and> b = CHR 0x80 \<and> c = CHR 0x80))"

fun strip_front ::
  "(char \<Rightarrow> char \<Rightarrow> bool) \<Rightarrow> (char \<Rightarrow> char \<Rightarrow> char \<Rightarrow> bool) \<Rightarrow> string \<Rightarrow> string" where
  "strip_front p2 p3 (a # b # c # s) =
     (if ws1 a then strip_front p2 p3 (b # c # s)
      else if p2 a b then strip_front p2 p3 (c # s)
      else if p3 a b c then strip_front p2 p3 s
      else a # b # c # s)"
| "strip_front p2 p3 [a, b] =
     (if ws1 a then strip_front p2 p3 [b] else if p2 a b then [] else [a, b])"
| "strip_front p2 p3 [a] = (if ws1 a then [] else [a])"
| "strip_front p2 p3 [] = []"

definition lstrip :: "string \<Rightarrow> string" where
  "lstrip s = strip_front ws2 ws3 s"

definition rstrip :: "string \<Rightarrow> string" where
  "rstrip s = rev (strip_front (\<lambda>a b. ws2 b a) (\<lambda>a b c. ws3 c b a) (rev s))"

text \<open>\<open>line.strip()\<close>\<close>

definition py_strip :: "string \<Rightarrow> string" where
  "py_strip s = rstrip (lstrip s)"

text \<open>The code points of a string: a byte \<open>10xxxxxx\<close> continues the one before it.\<close>

definition is_cont :: "char \<Rightarrow> bool" where
  "is_cont c = (128 \<le> (of_char c :: nat) \<and> (of_char c :: nat) < 192)"

fun utf8_chars :: "string \<Rightarrow> string list" where
  "utf8_chars [] = []"
| "utf8_chars (c # s) =
     (case utf8_chars s of
        [] \<Rightarrow> [[c]]
      | g # gs \<Rightarrow> (case g of
            [] \<Rightarrow> [c] # gs
          | d # ds \<Rightarrow> if is_cont d then (c # g) # gs else [c] # g # gs))"



text \<open>Decimal digits of a natural number, as \<open>str(n)\<close> prints them.\<close>

function show_nat :: "nat \<Rightarrow> string" where
  "show_nat n =
     (if n < 10 then [''0123456789'' ! n]
      else show_nat (n div 10) @ [''0123456789'' ! (n mod 10)])"
  by pat_completeness auto
termination
  by (relation "measure id") auto

section \<open>JSON values as Python holds them\<close>

text \<open>
  What \<open>json.loads\<close> returns: \<open>None\<close>, \<open>bool\<close>, \<open>int\<close>, \<open>float\<close>, \<open>str\<close>, \<open>list\<close>,
  \<open>dict\<close>. A finite float is the rational it denotes (\<open>NaN\<close> and the infinities, which
  are not JSON, are left out). A dict is the association list of its items; where a
  key occurs twice the first occurrence is the item, so that \<^const>\<open>map_of\<close> is the
  lookup.
\<close>

datatype json =
    JNull
  | JBool bool
  | JInt int
  | JFloat rat
  | JStr string
  | JArr "json list"
  | JObj "(string \<times> json) list"

fun dict_items :: "(string \<times> 'a) list \<Rightarrow> (string \<times> 'a) list" where
  "dict_items [] = []"
| "dict_items (kv # kvs) = kv # dict_items (filter (\<lambda>p. fst p \<noteq> fst kv) kvs)"

datatype py_error =
  TypeError | AttributeError | KeyError | ValueError | RecursionError | UnicodeEncodeError

text \<open>Sequencing of steps that may raise: the first exception ends the computation.\<close>

fun py_bind :: "py_error + 'a \<Rightarrow> ('a \<Rightarrow> py_error + 'b) \<Rightarrow> py_error + 'b" where
  "py_bind (Inl e) f = Inl e"
| "py_bind (Inr v) f = f v"

text \<open>\<open>key in x\<close> for a text key: dict membership, list membership, substring.\<close>

fun py_in :: "string \<Rightarrow> json \<Rightarrow> py_error + bool" where
  "py_in k (JObj kvs) = Inr (k \<in> set (map fst kvs))"
| "py_in k (JArr xs) = Inr (JStr k \<in> set xs)"
| "py_in k (JStr s) = Inr (str_in k s)"
| "py_in k JNull = Inl TypeError"
| "py_in k (JBool b) = Inl TypeError"
| "py_in k (JInt n) = Inl TypeError"
| "py_in k (JFloat r) = Inl TypeError"

text \<open>\<open>x[key]\<close> for a text key.\<close>

fun py_getitem :: "json \<Rightarrow> string \<Rightarrow> py_error + json" where
  "py_getitem (JObj kvs) k = (case map_of kvs k of None \<Rightarrow> Inl KeyError | Some v \<Rightarrow> Inr v)"
| "py_getitem JNull k = Inl TypeError"
| "py_getitem (JBool b) k = Inl TypeError"
| "py_getitem (JInt n) k = Inl TypeError"
| "py_getitem (JFloat r) k = Inl TypeError"
| "py_getitem (JStr s) k = Inl TypeError"
| "py_getitem (JArr xs) k = Inl TypeError"

text \<open>\<open>x.get(key, dflt)\<close>: only a dict has the method.\<close>

fun py_get :: "json \<Rightarrow> string \<Rightarrow> json \<Rightarrow> py_error + json" where
  "py_get (JObj kvs) k dflt = Inr (case map_of kvs k of None \<Rightarrow> dflt | Some v \<Rightarrow> v)"
| "py_get JNull k dflt = Inl AttributeError"
| "py_get (JBool b) k dflt = Inl AttributeError"
| "py_get (JInt n) k dflt = Inl AttributeError"
| "py_get (JFloat r) k dflt = Inl AttributeError"
| "py_get (JStr s) k dflt = Inl AttributeError"
| "py_get (JArr xs) k dflt = Inl AttributeError"

text \<open>\<open>len(x)\<close>\<close>

fun py_len :: "json \<Rightarrow> py_error + nat" where
  "py_len (JArr xs) = Inr (length xs)"
| "py_len (JObj kvs) = Inr (length (dict_items kvs))"
| "py_len (JStr s) = Inr (length (utf8_chars s))"
| "py_len JNull = Inl TypeError"
| "py_len (JBool b) = Inl TypeError"
| "py_len (JInt n) = Inl TypeError"
| "py_len (JFloat r) = Inl TypeError"


text \<open>Truth value of \<open>x\<close> in \<open>if x and ...\<close>.\<close>

fun truthy :: "json \<Rightarrow> bool" where
  "truthy JNull = False"
| "truthy (JBool b) = b"
| "truthy (JInt n) = (n \<noteq> 0)"
| "truthy (JFloat r) = (r \<noteq> 0)"
| "truthy (JStr s) = (s \<noteq> [])"
| "truthy (JArr xs) = (xs \<noteq> [])"
| "truthy (JObj kvs) = (kvs \<noteq> [])"

fun is_str :: "json \<Rightarrow> bool" where
  "is_str (JStr s) = True"
| "is_str v = False"


fun is_dict :: "json \<Rightarrow> bool" where
  "is_dict (JObj kvs) = True"
| "is_dict v = False"

text \<open>\<open>type(x).__name__\<close>\<close>

fun type_name :: "json \<Rightarrow> string" where
  "type_name JNull = ''NoneType''"
| "type_name (JBool b) = ''bool''"
| "type_name (JInt n) = ''int''"
| "type_name (JFloat r) = ''float''"
| "type_name (JStr s) = ''str''"
| "type_name (JArr xs) = ''list''"
| "type_name (JObj kvs) = ''dict''"

text \<open>
  \<open>f"{x}"\<close>: a str is inserted as it is; for every other value Python's \<open>str()\<close>
  decides, which the functions below take as the parameter \<open>fmt\<close>.
\<close>

fun py_format :: "(json \<Rightarrow> string) \<Rightarrow> json \<Rightarrow> string" where
  "py_format fmt (JStr s) = s"
| "py_format fmt v = fmt v"

section \<open>Session transport (test\_mcp\_stdio.py)\<close>

text \<open>
  What the world does with one \<open>docker run\<close>: \<open>communicate\<close> returns the two captured
  streams once the child has exited, or raises \<open>TimeoutExpired\<close> (Python leaves the
  child running then), or \<open>Popen\<close>/\<open>communicate\<close> raise something else with the child
  in the given state.
\<close>

datatype proc_state = NotStarted | StillRunning | Exited

datatype comm_outcome =
    Completed string string
  | TimeoutExpired
  | Failed proc_state

text \<open>
  \<open>json.loads\<close> is the parameter \<open>loads\<close>. Applied to a line it returns a value, or
  raises \<open>JSONDecodeError\<close>, or raises another exception: \<open>ValueError\<close> for an integer
  of more than 4300 digits, \<open>RecursionError\<close> for a document nested too deeply.
\<close>

datatype decoded = Decoded json | JSONDecodeError | Raised py_error

text \<open>The test both scanning loops apply to a stripped line:\<close>

definition is_candidate :: "string \<Rightarrow> bool" where
  \<open>is_candidate line = (startswith line ''{'' \<and> str_in ''"jsonrpc"'' line)\<close>

text \<open>
  The loop of \<open>send_sequence\<close> over \<open>stdout.split('\n')\<close>, \<open>responses\<close> as accumulator.
  \<open>except json.JSONDecodeError: continue\<close> skips the line; any other exception of
  \<open>json.loads\<close> leaves the loop.
\<close>

fun collect_responses ::
  "(string \<Rightarrow> decoded) \<Rightarrow> string list \<Rightarrow> json list \<Rightarrow> py_error + json list" where
  "collect_responses loads [] responses = Inr responses"
| "collect_responses loads (raw # rest) responses =
     (let line = py_strip raw in
      if is_candidate line then
        (case loads line of
           Decoded v \<Rightarrow> collect_responses loads rest (responses @ [v])
         | JSONDecodeError \<Rightarrow> collect_responses loads rest responses
         | Raised e \<Rightarrow> Inl e)
      else collect_responses loads rest responses)"

text \<open>
  \<open>send_sequence\<close>: the responses returned, and the state the child is in when
  control returns. \<open>except Exception\<close> turns what the loop raises into \<open>[]\<close>. Neither
  handler calls \<open>kill\<close> or \<open>wait\<close>.
\<close>

definition send_sequence :: "(string \<Rightarrow> decoded) \<Rightarrow> comm_outcome \<Rightarrow> json list \<times> proc_state" where
  "send_sequence loads env =
     (case env of
        Completed out err \<Rightarrow>
          (case collect_responses loads (split_nl out) [] of
             Inl e \<Rightarrow> ([], Exited)
           | Inr responses \<Rightarrow> (responses, Exited))
      | TimeoutExpired \<Rightarrow> ([], StillRunning)
      | Failed st \<Rightarrow> ([], st))"

text \<open>The loop of \<open>send_message\<close>: the first candidate line that decodes.\<close>

fun first_response :: "(string \<Rightarrow> decoded) \<Rightarrow> string list \<Rightarrow> py_error + json option" where
  "first_response loads [] = Inr None"
| "first_response loads (raw # rest) =
     (let line = py_strip raw in
      if is_candidate line then
        (case loads line of
           Decoded v \<Rightarrow> Inr (Some v)
         | JSONDecodeError \<Rightarrow> first_response loads rest
         | Raised e \<Rightarrow> Inl e)
      else first_response loads rest)"

definition send_message :: "(string \<Rightarrow> decoded) \<Rightarrow> comm_outcome \<Rightarrow> json option \<times> proc_state" where
  "send_message loads env =
     (case env of
        Completed out err \<Rightarrow>
          (case first_response loads (split_nl out) of
             Inl e \<Rightarrow> (None, Exited)
           | Inr resp \<Rightarrow> (resp, Exited))
      | TimeoutExpired \<Rightarrow> (None, StillRunning)
      | Failed st \<Rightarrow> (None, st))"

text \<open>
  The specification's wording of the scan: the stripped lines that begin with \<open>{\<close>
  and contain the marker are the candidate lines; those that decode, each replaced by
  its parse, in order, are the responses.
\<close>

definition candidate_lines :: "string \<Rightarrow> string list" where
  "candidate_lines out = filter is_candidate (map py_strip (split_nl out))"

fun decodes :: "decoded \<Rightarrow> bool" where
  "decodes (Decoded v) = True"
| "decodes JSONDecodeError = False"
| "decodes (Raised e) = False"

fun parse_of :: "decoded \<Rightarrow> json" where
  "parse_of (Decoded v) = v"
| "parse_of JSONDecodeError = JNull"
| "parse_of (Raised e) = JNull"

fun raises :: "decoded \<Rightarrow> bool" where
  "raises (Raised e) = True"
| "raises (Decoded v) = False"
| "raises JSONDecodeError = False"

definition decoded_lines :: "(string \<Rightarrow> decoded) \<Rightarrow> string \<Rightarrow> string list" where
  "decoded_lines loads out = filter (\<lambda>l. decodes (loads l)) (candidate_lines out)"

definition spec_responses :: "(string \<Rightarrow> decoded) \<Rightarrow> string \<Rightarrow> json list" where
  "spec_responses loads out = map (\<lambda>l. parse_of (loads l)) (decoded_lines loads out)"

text \<open>Some candidate line makes \<open>json.loads\<close> raise something other than \<open>JSONDecodeError\<close>.\<close>

definition decoder_raises :: "(string \<Rightarrow> decoded) \<Rightarrow> string \<Rightarrow> bool" where
  "decoder_raises loads out = list_ex (\<lambda>l. raises (loads l)) (candidate_lines out)"

section \<open>Scenarios (test\_mcp\_stdio.py)\<close>

record test_result =
  name :: string
  passed :: bool
  message :: string
  duration :: rat
  response :: "json option"

text \<open>
  Each scenario is split at its transport call: the part after the call judges what
  the transport returned (\<open>dur\<close> is \<open>time.time() - start\<close>) and may raise; the scenario
  itself runs the transport on what the world does in this session and judges the
  result. The requests written to the child are not modelled: the server is external
  and may answer anything.
\<close>

type_synonym session = "comm_outcome \<times> rat \<times> rat"

definition initialize_failed :: "json option \<Rightarrow> rat \<Rightarrow> test_result" where
  "initialize_failed resp dur =
     \<lparr>name = ''MCP Initialize'', passed = False,
      message = ''No valid initialize response'', duration = dur, response = resp\<rparr>"

definition judge_initialize :: "(json \<Rightarrow> string) \<Rightarrow> json option \<Rightarrow> rat \<Rightarrow> py_error + test_result" where
  "judge_initialize fmt resp dur =
     (case resp of
        None \<Rightarrow> Inr (initialize_failed resp dur)
      | Some r \<Rightarrow>
          if \<not> truthy r then Inr (initialize_failed resp dur)
          else
            py_bind (py_in ''result'' r) (\<lambda>has_result.
              if has_result then
                py_bind (py_getitem r ''result'') (\<lambda>res.
                py_bind (py_in ''protocolVersion'' res) (\<lambda>has_version.
                  if has_version then
                    py_bind (py_getitem r ''result'') (\<lambda>res'.
                    py_bind (py_getitem res' ''protocolVersion'') (\<lambda>pv.
                      Inr \<lparr>name = ''MCP Initialize'', passed = True,
                           message = ''Protocol version: '' @ py_format fmt pv,
                           duration = dur, response = resp\<rparr>))
                  else Inr (initialize_failed resp dur)))
              else Inr (initialize_failed resp dur)))"


text \<open>\<open>responses[1] if len(responses) > 1 else None\<close>\<close>

definition second_or_none :: "json list \<Rightarrow> json option" where
  "second_or_none responses = (if length responses > 1 then Some (responses ! 1) else None)"

text \<open>
  \<open>test_tools_list\<close> and \<open>test_resources_list\<close> are the same code up to the scenario
  name \<open>nm\<close>, the key \<open>key\<close> read from the result (it is also the noun of the
  message) and the failure text \<open>failmsg\<close>.
\<close>

definition judge_list ::
  "string \<Rightarrow> string \<Rightarrow> string \<Rightarrow> json list \<Rightarrow> rat \<Rightarrow> py_error + test_result" where
  "judge_list nm key failmsg responses dur =
     (let failed = \<lparr>name = nm, passed = False, message = failmsg, duration = dur,
                     response = second_or_none responses\<rparr> in
      if length responses \<ge> 2 then
        py_bind (py_in ''result'' (responses ! 1)) (\<lambda>has_result.
          if has_result then
            py_bind (py_getitem (responses ! 1) ''result'') (\<lambda>res.
            py_bind (py_get res key (JArr [])) (\<lambda>entries.
            py_bind (py_len entries) (\<lambda>n.
              Inr \<lparr>name = nm, passed = True,
                   message = ''Found '' @ show_nat n @ '' '' @ key,
                   duration = dur, response = Some (responses ! 1)\<rparr>)))
          else Inr failed)
      else Inr failed)"

definition judge_tools_list :: "json list \<Rightarrow> rat \<Rightarrow> py_error + test_result" where
  "judge_tools_list responses dur =
     judge_list ''List Tools'' ''tools'' ''Failed to get tools list'' responses dur"

definition judge_resources_list :: "json list \<Rightarrow> rat \<Rightarrow> py_error + test_result" where
  "judge_resources_list responses dur =
     judge_list ''List Resources'' ''resources'' ''Failed to get resources list'' responses dur"

definition test_tools_list :: "(string \<Rightarrow> decoded) \<Rightarrow> session \<Rightarrow> py_error + test_result" where
  "test_tools_list loads w =
     (case w of (env, t0, t1) \<Rightarrow> judge_tools_list (fst (send_sequence loads env)) (t1 - t0))"


text \<open>\<open>test_call_tool\<close>; its \<open>arguments\<close> only enter the request.\<close>

definition judge_call_tool ::
  "(json \<Rightarrow> string) \<Rightarrow> string \<Rightarrow> json list \<Rightarrow> rat \<Rightarrow> py_error + test_result" where
  "judge_call_tool fmt tool_name responses dur =
     (let no_response = \<lparr>name = ''Call Tool: '' @ tool_name, passed = False,
                          message = ''No response from tool'', duration = dur,
                          response = second_or_none responses\<rparr> in
      if length responses \<ge> 2 then
        (let result = responses ! 1 in
         py_bind (py_in ''result'' result) (\<lambda>has_result.
           if has_result then
             Inr \<lparr>name = ''Call Tool: '' @ tool_name, passed = True,
                  message = ''Tool executed successfully'', duration = dur,
                  response = Some result\<rparr>
           else
             py_bind (py_in ''error'' result) (\<lambda>has_error.
               if has_error then
                 py_bind (py_getitem result ''error'') (\<lambda>err.
                 py_bind (py_get err ''message'' (JStr ''Unknown'')) (\<lambda>m.
                   Inr \<lparr>name = ''Call Tool: '' @ tool_name, passed = False,
                        message = ''Tool error: '' @ py_format fmt m, duration = dur,
                        response = Some result\<rparr>))
               else Inr no_response)))
      else Inr no_response)"

definition test_call_tool ::
  "(string \<Rightarrow> decoded) \<Rightarrow> (json \<Rightarrow> string) \<Rightarrow> string \<Rightarrow> session \<Rightarrow> py_error + test_result" where
  "test_call_tool loads fmt tool_name w =
     (case w of (env, t0, t1) \<Rightarrow>
        judge_call_tool fmt tool_name (fst (send_sequence loads env)) (t1 - t0))"

definition invalid_method_failed :: "json option \<Rightarrow> rat \<Rightarrow> test_result" where
  "invalid_method_failed resp dur =
     \<lparr>name = ''Invalid Method Error Handling'', passed = False,
      message = ''Did not return error for invalid method'', duration = dur,
      response = resp\<rparr>"

definition judge_invalid_method :: "(json \<Rightarrow> string) \<Rightarrow> json option \<Rightarrow> rat \<Rightarrow> py_error + test_result" where
  "judge_invalid_method fmt resp dur =
     (case resp of
        None \<Rightarrow> Inr (invalid_method_failed resp dur)
      | Some r \<Rightarrow>
          if \<not> truthy r then Inr (invalid_method_failed resp dur)
          else
            py_bind (py_in ''error'' r) (\<lambda>has_error.
              if has_error then
                py_bind (py_getitem r ''error'') (\<lambda>err.
                py_bind (py_get err ''message'' (JStr ''Unknown'')) (\<lambda>m.
                  Inr \<lparr>name = ''Invalid Method Error Handling'', passed = True,
                       message = ''Correctly returned error: '' @ py_format fmt m,
                       duration = dur, response = resp\<rparr>))
              else Inr (invalid_method_failed resp dur)))"








section \<open>Schema validator (validate-mcp-schema.py)\<close>

text \<open>
  A finding is the text of an issue. The text begins with the cross mark U+274C when
  the finding is blocking and with the warning sign U+26A0 U+FE0F when it is advisory;
  \<open>main\<close> tells them apart by \<open>startswith\<close>.
\<close>

definition cross :: string where
  "cross = [CHR 0xE2, CHR 0x9D, CHR 0x8C]"

definition warn :: string where
  "warn = [CHR 0xE2, CHR 0x9A, CHR 0xA0, CHR 0xEF, CHR 0xB8, CHR 0x8F]"

definition sq :: string where
  "sq = [CHR 0x27]"

definition is_critical :: "string \<Rightarrow> bool" where
  "is_critical i = startswith i cross"

definition is_warning :: "string \<Rightarrow> bool" where
  "is_warning i = startswith i warn"

text \<open>\<open>x.items()\<close>\<close>

fun py_items :: "json \<Rightarrow> py_error + (string \<times> json) list" where
  "py_items (JObj kvs) = Inr (dict_items kvs)"
| "py_items v = Inl AttributeError"

text \<open>
  The body of the loop of \<open>validate_tool_schema\<close> over the properties has two
  steps: the check of \<open>default\<close>, then the check of \<open>description\<close>. Each returns the
  issues it appends.
\<close>

definition empty_default_issue :: "(json \<Rightarrow> string) \<Rightarrow> json \<Rightarrow> string \<Rightarrow> string" where
  "empty_default_issue fmt tool_name prop_name =
     warn @ ''  '' @ py_format fmt tool_name @ ''.'' @ prop_name @
     '': 'default' is empty array [] - should be null or omitted''"

definition malformed_default_issue :: "(json \<Rightarrow> string) \<Rightarrow> json \<Rightarrow> string \<Rightarrow> json \<Rightarrow> string" where
  "malformed_default_issue fmt tool_name prop_name dflt =
     cross @ '' '' @ py_format fmt tool_name @ ''.'' @ prop_name @
     '': 'default' contains malformed array (R c() function?): '' @ py_format fmt dflt"

definition check_default :: "(json \<Rightarrow> string) \<Rightarrow> json \<Rightarrow> string \<Rightarrow> json \<Rightarrow> py_error + string list" where
  "check_default fmt tool_name prop_name prop_def =
     py_bind (py_in ''default'' prop_def) (\<lambda>has_default.
       if has_default then
         py_bind (py_getitem prop_def ''default'') (\<lambda>dflt.
           Inr (case dflt of
                  JArr [] \<Rightarrow> [empty_default_issue fmt tool_name prop_name]
                | JArr (x # xs) \<Rightarrow>
                    if x = JStr ''c'' then [malformed_default_issue fmt tool_name prop_name dflt]
                    else []
                | _ \<Rightarrow> []))
       else Inr [])"

definition check_prop_description :: "(json \<Rightarrow> string) \<Rightarrow> json \<Rightarrow> string \<Rightarrow> json \<Rightarrow> py_error + string list" where
  "check_prop_description fmt tool_name prop_name prop_def =
     py_bind (py_in ''description'' prop_def) (\<lambda>has_description.
       if has_description then
         py_bind (py_getitem prop_def ''description'') (\<lambda>d.
           Inr (if is_str d then []
                else [cross @ '' '' @ py_format fmt tool_name @ ''.'' @ prop_name @
                      '': 'description' must be a string'']))
       else Inr [])"

fun props_loop ::
  "(json \<Rightarrow> string) \<Rightarrow> json \<Rightarrow> (string \<times> json) list \<Rightarrow> string list \<Rightarrow> py_error + string list" where
  "props_loop fmt tool_name [] issues = Inr issues"
| "props_loop fmt tool_name (p # rest) issues =
     py_bind (check_default fmt tool_name (fst p) (snd p)) (\<lambda>a.
     py_bind (check_prop_description fmt tool_name (fst p) (snd p)) (\<lambda>b.
       props_loop fmt tool_name rest (issues @ a @ b)))"

definition check_tool_description :: "(json \<Rightarrow> string) \<Rightarrow> json \<Rightarrow> json \<Rightarrow> py_error + string list" where
  "check_tool_description fmt tool_name tool =
     py_bind (py_in ''description'' tool) (\<lambda>has_description.
       if has_description then
         py_bind (py_getitem tool ''description'') (\<lambda>d.
           Inr (if is_str d then []
                else [cross @ '' '' @ py_format fmt tool_name @
                      '': 'description' must be a string, got '' @ type_name d]))
       else Inr [])"

definition validate_tool_schema :: "(json \<Rightarrow> string) \<Rightarrow> json \<Rightarrow> py_error + string list" where
  "validate_tool_schema fmt tool =
     py_bind (py_get tool ''name'' (JStr ''unknown'')) (\<lambda>tool_name.
     py_bind (check_tool_description fmt tool_name tool) (\<lambda>issues.
     py_bind (py_in ''inputSchema'' tool) (\<lambda>has_schema.
       if has_schema then
         py_bind (py_getitem tool ''inputSchema'') (\<lambda>schema.
         py_bind (py_in ''properties'' schema) (\<lambda>has_properties.
           if has_properties then
             py_bind (py_getitem schema ''properties'') (\<lambda>props.
             py_bind (py_items props) (\<lambda>items.
               props_loop fmt tool_name items issues))
           else Inr issues))
       else Inr issues)))"


text \<open>The body of the loop of \<open>validate_resource_schema\<close> over \<open>required_fields\<close>.\<close>

definition missing_field_issue :: "(json \<Rightarrow> string) \<Rightarrow> json \<Rightarrow> string \<Rightarrow> string" where
  "missing_field_issue fmt resource_uri field =
     cross @ '' Resource '' @ py_format fmt resource_uri @
     '': missing required field '' @ sq @ field @ sq"

definition non_text_field_issue :: "(json \<Rightarrow> string) \<Rightarrow> json \<Rightarrow> string \<Rightarrow> string" where
  "non_text_field_issue fmt resource_uri field =
     cross @ '' Resource '' @ py_format fmt resource_uri @
     '': '' @ sq @ field @ sq @ '' must be a string''"

definition check_field :: "(json \<Rightarrow> string) \<Rightarrow> json \<Rightarrow> json \<Rightarrow> string \<Rightarrow> py_error + string list" where
  "check_field fmt resource_uri resource field =
     py_bind (py_in field resource) (\<lambda>present.
       if \<not> present then Inr [missing_field_issue fmt resource_uri field]
       else
         py_bind (py_getitem resource field) (\<lambda>v.
           Inr (if is_str v then [] else [non_text_field_issue fmt resource_uri field])))"

fun fields_loop ::
  "(json \<Rightarrow> string) \<Rightarrow> json \<Rightarrow> json \<Rightarrow> string list \<Rightarrow> string list \<Rightarrow> py_error + string list" where
  "fields_loop fmt resource_uri resource [] issues = Inr issues"
| "fields_loop fmt resource_uri resource (field # rest) issues =
     py_bind (check_field fmt resource_uri resource field) (\<lambda>a.
       fields_loop fmt resource_uri resource rest (issues @ a))"

definition validate_resource_schema :: "(json \<Rightarrow> string) \<Rightarrow> json \<Rightarrow> py_error + string list" where
  "validate_resource_schema fmt resource =
     py_bind (py_get resource ''uri'' (JStr ''unknown'')) (\<lambda>resource_uri.
       fields_loop fmt resource_uri resource [''uri'', ''name'', ''mimeType''] [])"

text \<open>
  \<open>get_mcp_capabilities\<close>. The dict \<open>responses\<close> is keyed by the \<open>id\<close> of a response:
  Python hashes \<open>None\<close>, numbers (\<open>True\<close> is 1, and \<open>2.0\<close> is the key \<open>2\<close>) and text, and
  raises \<open>TypeError\<close> for a list or a dict.
\<close>

datatype pykey = KNone | KNum rat | KStr string

fun hash_key :: "json \<Rightarrow> py_error + pykey" where
  "hash_key JNull = Inr KNone"
| "hash_key (JBool b) = Inr (KNum (if b then 1 else 0))"
| "hash_key (JInt n) = Inr (KNum (of_int n))"
| "hash_key (JFloat r) = Inr (KNum r)"
| "hash_key (JStr s) = Inr (KStr s)"
| "hash_key (JArr xs) = Inl TypeError"
| "hash_key (JObj kvs) = Inl TypeError"

text \<open>
  What the loop does with one decoded line:
  \<open>if "id" in response and "result" in response: responses[response["id"]] = response["result"]\<close>
\<close>

definition store_response :: "json \<Rightarrow> (pykey \<rightharpoonup> json) \<Rightarrow> py_error + (pykey \<rightharpoonup> json)" where
  "store_response resp responses =
     py_bind (py_in ''id'' resp) (\<lambda>has_id.
       if has_id then
         py_bind (py_in ''result'' resp) (\<lambda>has_result.
           if has_result then
             py_bind (py_getitem resp ''result'') (\<lambda>res.
             py_bind (py_getitem resp ''id'') (\<lambda>i.
             py_bind (hash_key i) (\<lambda>k.
               Inr (responses(k \<mapsto> res)))))
           else Inr responses)
       else Inr responses)"

fun store_loop ::
  "(string \<Rightarrow> decoded) \<Rightarrow> string list \<Rightarrow> (pykey \<rightharpoonup> json) \<Rightarrow> py_error + (pykey \<rightharpoonup> json)" where
  "store_loop loads [] responses = Inr responses"
| "store_loop loads (raw # rest) responses =
     (let line = py_strip raw in
      if is_candidate line then
        (case loads line of
           Decoded resp \<Rightarrow> py_bind (store_response resp responses) (store_loop loads rest)
         | JSONDecodeError \<Rightarrow> store_loop loads rest responses
         | Raised e \<Rightarrow> Inl e)
      else store_loop loads rest responses)"

text \<open>\<open>responses.get(k, {}).get(key, [])\<close>\<close>

definition capability :: "(pykey \<rightharpoonup> json) \<Rightarrow> rat \<Rightarrow> string \<Rightarrow> py_error + json" where
  "capability responses k key =
     (case responses (KNum k) of
        None \<Rightarrow> py_get (JObj []) key (JArr [])
      | Some res \<Rightarrow> py_get res key (JArr []))"

text \<open>
  The three lists are the components \<open>tools\<close>, \<open>prompts\<close>, \<open>resources\<close> of the dict
  returned. The handler \<open>except Exception\<close> covers the whole body: whatever is raised
  in it (also \<open>TimeoutExpired\<close>) gives three empty lists.
\<close>

definition no_capabilities :: "json \<times> json \<times> json" where
  "no_capabilities = (JArr [], JArr [], JArr [])"

definition get_mcp_capabilities :: "(string \<Rightarrow> decoded) \<Rightarrow> comm_outcome \<Rightarrow> json \<times> json \<times> json" where
  "get_mcp_capabilities loads env =
     (case env of
        Completed out err \<Rightarrow>
          (case py_bind (store_loop loads (split_nl out) Map.empty) (\<lambda>responses.
                py_bind (capability responses 2 ''tools'') (\<lambda>tools.
                py_bind (capability responses 3 ''prompts'') (\<lambda>prompts.
                py_bind (capability responses 4 ''resources'') (\<lambda>resources.
                  Inr (tools, prompts, resources))))) of
             Inl e \<Rightarrow> no_capabilities
           | Inr caps \<Rightarrow> caps)
      | TimeoutExpired \<Rightarrow> no_capabilities
      | Failed st \<Rightarrow> no_capabilities)"







section \<open>A decoder and a formatter for concrete runs\<close>

text \<open>
  The functions above hold for every \<open>loads\<close> and \<open>fmt\<close>. To run them on a concrete
  stdout, \<open>loads_plain\<close> decodes the part of JSON without escape sequences in
  strings and without fractions, exponents, \<open>NaN\<close> or \<open>Infinity\<close> in numbers, nested
  no deeper than the interpreter allows. Where it returns a value, \<open>json.loads\<close>
  returns the same value; where it raises \<open>ValueError\<close> (an integer of more than 4300
  digits), so does \<open>json.loads\<close>; on a document outside that part it reports
  \<open>JSONDecodeError\<close> though \<open>json.loads\<close> may decode it. The recursion is bounded by
  the length of the text.
\<close>

datatype 'a scan = Scanned 'a string | Malformed | Overflow py_error

definition dq :: char where
  "dq = CHR 0x22"

definition json_ws :: "char \<Rightarrow> bool" where
  "json_ws c = (c = CHR 0x20 \<or> c = CHR 0x09 \<or> c = CHR 0x0A \<or> c = CHR 0x0D)"

definition skip_ws :: "string \<Rightarrow> string" where
  "skip_ws s = dropWhile json_ws s"

text \<open>The text of a string after its opening quote, and what follows the closing one.\<close>

fun scan_string :: "string \<Rightarrow> (string \<times> string) option" where
  "scan_string [] = None"
| "scan_string (c # s) =
     (if c = dq then Some ([], s)
      else if c = CHR 0x5C \<or> (of_char c :: nat) < 32 then None
      else (case scan_string s of None \<Rightarrow> None | Some (t, r) \<Rightarrow> Some (c # t, r)))"

definition is_digit :: "char \<Rightarrow> bool" where
  "is_digit c = (48 \<le> (of_char c :: nat) \<and> (of_char c :: nat) \<le> 57)"

definition digits_value :: "string \<Rightarrow> nat" where
  "digits_value ds = foldl (\<lambda>a d. 10 * a + ((of_char d :: nat) - 48)) 0 ds"

text \<open>
  \<open>0\<close> or a digit string without leading zero; a fraction or exponent is refused;
  \<open>int()\<close> refuses more than 4300 digits with \<open>ValueError\<close>.
\<close>

definition scan_nat :: "string \<Rightarrow> nat scan" where
  "scan_nat s =
     (case s of
        [] \<Rightarrow> Malformed
      | c # r \<Rightarrow>
          if \<not> is_digit c then Malformed
          else
            (let ds = (if c = CHR ''0'' then [c] else takeWhile is_digit s);
                 r' = drop (length ds) s in
             if startswith r' ''.'' \<or> startswith r' ''e'' \<or> startswith r' ''E'' then Malformed
             else if length ds > 4300 then Overflow ValueError
             else Scanned (digits_value ds) r'))"

definition scan_number :: "string \<Rightarrow> json scan" where
  "scan_number s =
     (if startswith s ''-'' then
        (case scan_nat (tl s) of
           Scanned n r \<Rightarrow> Scanned (JInt (- int n)) r
         | Malformed \<Rightarrow> Malformed
         | Overflow e \<Rightarrow> Overflow e)
      else
        (case scan_nat s of
           Scanned n r \<Rightarrow> Scanned (JInt (int n)) r
         | Malformed \<Rightarrow> Malformed
         | Overflow e \<Rightarrow> Overflow e))"

text \<open>\<open>d[k] = v\<close> on the items of a dict: a key met again keeps its place.\<close>

fun dict_set :: "(string \<times> json) list \<Rightarrow> string \<Rightarrow> json \<Rightarrow> (string \<times> json) list" where
  "dict_set [] k v = [(k, v)]"
| "dict_set (p # ps) k v = (if fst p = k then (k, v) # ps else p # dict_set ps k v)"

fun parse_value :: "nat \<Rightarrow> string \<Rightarrow> json scan"
  and parse_elements :: "nat \<Rightarrow> string \<Rightarrow> json list \<Rightarrow> json scan"
  and parse_members :: "nat \<Rightarrow> string \<Rightarrow> (string \<times> json) list \<Rightarrow> json scan" where
  "parse_value 0 s = Malformed"
| "parse_value (Suc n) [] = Malformed"
| "parse_value (Suc n) (c # r) =
     (if c = dq then
        (case scan_string r of None \<Rightarrow> Malformed | Some (t, r') \<Rightarrow> Scanned (JStr t) r')
      else if c = CHR ''{'' then
        (if startswith (skip_ws r) ''}'' then Scanned (JObj []) (tl (skip_ws r))
         else parse_members n (skip_ws r) [])
      else if c = CHR ''['' then
        (if startswith (skip_ws r) '']'' then Scanned (JArr []) (tl (skip_ws r))
         else parse_elements n (skip_ws r) [])
      else if startswith (c # r) ''true'' then Scanned (JBool True) (drop 4 (c # r))
      else if startswith (c # r) ''false'' then Scanned (JBool False) (drop 5 (c # r))
      else if startswith (c # r) ''null'' then Scanned JNull (drop 4 (c # r))
      else scan_number (c # r))"
| "parse_elements 0 s acc = Malformed"
| "parse_elements (Suc n) s acc =
     (case parse_value n s of
        Malformed \<Rightarrow> Malformed
      | Overflow e \<Rightarrow> Overflow e
      | Scanned v r \<Rightarrow>
          (case skip_ws r of
             [] \<Rightarrow> Malformed
           | d # r' \<Rightarrow>
               if d = CHR '','' then parse_elements n (skip_ws r') (acc @ [v])
               else if d = CHR '']'' then Scanned (JArr (acc @ [v])) r'
               else Malformed))"
| "parse_members 0 s acc = Malformed"
| "parse_members (Suc n) [] acc = Malformed"
| "parse_members (Suc n) (q # r) acc =
     (if q \<noteq> dq then Malformed
      else
        (case scan_string r of
           None \<Rightarrow> Malformed
         | Some (k, r1) \<Rightarrow>
             (case skip_ws r1 of
                [] \<Rightarrow> Malformed
              | col # r2 \<Rightarrow>
                  if col \<noteq> CHR '':'' then Malformed
                  else
                    (case parse_value n (skip_ws r2) of
                       Malformed \<Rightarrow> Malformed
                     | Overflow e \<Rightarrow> Overflow e
                     | Scanned v r3 \<Rightarrow>
                         (case skip_ws r3 of
                            [] \<Rightarrow> Malformed
                          | d # r4 \<Rightarrow>
                              if d = CHR '','' then parse_members n (skip_ws r4) (dict_set acc k v)
                              else if d = CHR ''}'' then Scanned (JObj (dict_set acc k v)) r4
                              else Malformed)))))"

definition loads_plain :: "string \<Rightarrow> decoded" where
  "loads_plain s =
     (case parse_value (Suc (length s)) (skip_ws s) of
        Malformed \<Rightarrow> JSONDecodeError
      | Overflow e \<Rightarrow> Raised e
      | Scanned v r \<Rightarrow> if skip_ws r = [] then Decoded v else JSONDecodeError)"

text \<open>
  \<open>str_plain\<close> is Python's \<open>str()\<close> on values built from \<open>None\<close>, booleans, integers,
  lists, dicts and text of printable ASCII without quote or backslash. It is used
  below on such values only (a float prints as a placeholder).
\<close>

definition show_int :: "int \<Rightarrow> string" where
  "show_int i = (if i < 0 then ''-'' @ show_nat (nat (- i)) else show_nat (nat i))"

fun join_comma :: "string list \<Rightarrow> string" where
  "join_comma [] = []"
| "join_comma [x] = x"
| "join_comma (x # y # zs) = x @ '', '' @ join_comma (y # zs)"

fun str_plain :: "json \<Rightarrow> string" where
  "str_plain JNull = ''None''"
| "str_plain (JBool b) = (if b then ''True'' else ''False'')"
| "str_plain (JInt n) = show_int n"
| "str_plain (JFloat r) = ''<float>''"
| "str_plain (JStr s) = sq @ s @ sq"
| "str_plain (JArr xs) = ''['' @ join_comma (map str_plain xs) @ '']''"
| "str_plain (JObj kvs) =
     ''{'' @ join_comma (map (\<lambda>(k, t). sq @ k @ sq @ '': '' @ t)
                         (dict_items (map (\<lambda>(k, v). (k, str_plain v)) kvs))) @ ''}''"

section \<open>Shapes of responses, and concrete sessions\<close>

text \<open>
  The wire format of a response: an object whose \<open>result\<close> and \<open>error\<close>, where
  present, are objects, and in whose result \<open>tools\<close> and \<open>resources\<close>, where present,
  have a length.
\<close>

fun has_len :: "json \<Rightarrow> bool" where
  "has_len (JArr xs) = True"
| "has_len (JObj kvs) = True"
| "has_len (JStr s) = True"
| "has_len v = False"

definition result_ok :: "json \<Rightarrow> bool" where
  "result_ok res =
     (case res of
        JObj rs \<Rightarrow>
          (case map_of rs ''tools'' of None \<Rightarrow> True | Some v \<Rightarrow> has_len v) \<and>
          (case map_of rs ''resources'' of None \<Rightarrow> True | Some v \<Rightarrow> has_len v)
      | _ \<Rightarrow> False)"

definition wire_ok :: "json \<Rightarrow> bool" where
  "wire_ok r =
     (case r of
        JObj kvs \<Rightarrow>
          (case map_of kvs ''result'' of None \<Rightarrow> True | Some res \<Rightarrow> result_ok res) \<and>
          (case map_of kvs ''error'' of None \<Rightarrow> True | Some e \<Rightarrow> is_dict e)
      | _ \<Rightarrow> False)"

text \<open>A server that prints the same response line twice.\<close>

definition twice_out :: string where
  \<open>twice_out =
     ''{"jsonrpc":"2.0","id":1,"result":{}}'' @ [CHR 0x0A] @
     ''{"jsonrpc":"2.0","id":1,"result":{}}'' @ [CHR 0x0A]\<close>

text \<open>A server that logs a line, answers the handshake and refuses the tool call.\<close>

definition bad_args_out :: string where
  \<open>bad_args_out =
     ''starting server'' @ [CHR 0x0A] @
     ''{"jsonrpc":"2.0","id":1,"result":{"protocolVersion":"2024-11-05"}}'' @ [CHR 0x0A] @
     ''{"jsonrpc":"2.0","id":2,"error":{"message":"bad args"}}'' @ [CHR 0x0A]\<close>



definition handshake_ok :: json where
  "handshake_ok =
     JObj [(''jsonrpc'', JStr ''2.0''), (''id'', JInt 1),
           (''result'', JObj [(''protocolVersion'', JStr ''2024-11-05'')])]"

text \<open>A server that logs a line and answers both requests, in every session.\<close>

definition healthy_out :: string where
  \<open>healthy_out =
     ''starting server'' @ [CHR 0x0A] @
     ''{"jsonrpc":"2.0","id":1,"result":{"protocolVersion":"2024-11-05"}}'' @ [CHR 0x0A] @
     ''{"jsonrpc":"2.0","id":2,"result":{"tools":[]}}'' @ [CHR 0x0A]\<close>


text \<open>A server that answers the second request with the number 5 as its \<open>result\<close>.\<close>

definition number_out :: string where
  \<open>number_out =
     ''{"jsonrpc":"2.0","id":1,"result":{"protocolVersion":"2024-11-05"}}'' @ [CHR 0x0A] @
     ''{"jsonrpc":"2.0","id":2,"result":5}'' @ [CHR 0x0A]\<close>



text \<open>
  A server that logs a line and answers out of order: resources, an error for the
  prompts, then tools.
\<close>

definition mixed_out :: string where
  \<open>mixed_out =
     ''starting server'' @ [CHR 0x0A] @
     ''{"jsonrpc":"2.0","id":1,"result":{"protocolVersion":"2024-11-05"}}'' @ [CHR 0x0A] @
     ''{"jsonrpc":"2.0","id":4,"result":{"resources":[{"uri":"u"}]}}'' @ [CHR 0x0A] @
     ''{"jsonrpc":"2.0","id":3,"error":{"message":"no prompts"}}'' @ [CHR 0x0A] @
     ''{"jsonrpc":"2.0","id":2,"result":{"tools":[{"name":"t"}]}}'' @ [CHR 0x0A]\<close>

text \<open>A server whose answer to \<open>tools/list\<close> has the result null.\<close>

definition null_result_out :: string where
  \<open>null_result_out =
     ''{"jsonrpc":"2.0","id":2,"result":null}'' @ [CHR 0x0A] @
     ''{"jsonrpc":"2.0","id":3,"result":{"prompts":[{"name":"p"}]}}'' @ [CHR 0x0A]\<close>

text \<open>A tool with four declared properties.\<close>

definition demo_tool :: json where
  "demo_tool =
     JObj [(''name'', JStr ''find''),
           (''description'', JStr ''Find genes''),
           (''inputSchema'', JObj
              [(''type'', JStr ''object''),
               (''properties'', JObj
                  [(''a'', JObj [(''default'', JArr [])]),
                   (''b'', JObj [(''default'', JArr [JStr ''c'', JStr ''symbol''])]),
                   (''c'', JObj [(''default'', JNull)]),
                   (''d'', JObj [(''type'', JStr ''string'')])])])]"

section \<open>Correlation by id, in the specification's wording\<close>

text \<open>
  A recovered response answers request \<open>k\<close> when it is an object with a \<open>result\<close>
  whose \<open>id\<close> is the key \<open>k\<close> of a Python dict. The response selected for \<open>k\<close> is the
  last one that answers it; the capability is the list under the given key of its
  result, and the empty list when no response answers or the key is absent.
\<close>

definition answers :: "rat \<Rightarrow> json \<Rightarrow> bool" where
  "answers k r =
     (case r of
        JObj kvs \<Rightarrow>
          (case map_of kvs ''id'' of
             None \<Rightarrow> False
           | Some i \<Rightarrow> map_of kvs ''result'' \<noteq> None \<and> hash_key i = Inr (KNum k))
      | _ \<Rightarrow> False)"

fun is_hashable :: "json \<Rightarrow> bool" where
  "is_hashable (JArr xs) = False"
| "is_hashable (JObj kvs) = False"
| "is_hashable v = True"

definition storable :: "json \<Rightarrow> bool" where
  "storable r =
     (case r of
        JObj kvs \<Rightarrow>
          (case map_of kvs ''id'' of
             None \<Rightarrow> True
           | Some i \<Rightarrow> map_of kvs ''result'' = None \<or> is_hashable i)
      | _ \<Rightarrow> False)"

definition result_of :: "json \<Rightarrow> json" where
  "result_of r =
     (case r of
        JObj kvs \<Rightarrow> (case map_of kvs ''result'' of None \<Rightarrow> JNull | Some res \<Rightarrow> res)
      | _ \<Rightarrow> JNull)"

definition selected :: "rat \<Rightarrow> json list \<Rightarrow> json option" where
  "selected k rs =
     (case filter (answers k) rs of [] \<Rightarrow> None | m # ms \<Rightarrow> Some (result_of (last (m # ms))))"

definition selected_ok :: "rat \<Rightarrow> json list \<Rightarrow> bool" where
  "selected_ok k rs = (case selected k rs of None \<Rightarrow> True | Some res \<Rightarrow> is_dict res)"

definition spec_capability :: "rat \<Rightarrow> string \<Rightarrow> json list \<Rightarrow> json" where
  "spec_capability k key rs =
     (case selected k rs of
        None \<Rightarrow> JArr []
      | Some res \<Rightarrow>
          (case res of
             JObj kvs \<Rightarrow> (case map_of kvs key of None \<Rightarrow> JArr [] | Some v \<Rightarrow> v)
           | _ \<Rightarrow> JArr []))"

text \<open>The recovered responses stored one after the other, as the loop stores them.\<close>

fun store_all :: "json list \<Rightarrow> (pykey \<rightharpoonup> json) \<Rightarrow> py_error + (pykey \<rightharpoonup> json)" where
  "store_all [] responses = Inr responses"
| "store_all (r # rs) responses = py_bind (store_response r responses) (store_all rs)"

section \<open>Findings, in the specification's wording\<close>

text \<open>The issues a step of a validator appended, when it did not raise.\<close>

definition findings_of :: "py_error + string list \<Rightarrow> string list" where
  "findings_of r = (case r of Inl e \<Rightarrow> [] | Inr xs \<Rightarrow> xs)"

text \<open>\<open>tool.get("name", "unknown")\<close> and \<open>resource.get("uri", "unknown")\<close> on a dict.\<close>

definition name_of :: "(string \<times> json) list \<Rightarrow> json" where
  "name_of t = (case map_of t ''name'' of None \<Rightarrow> JStr ''unknown'' | Some n \<Rightarrow> n)"

definition uri_of :: "(string \<times> json) list \<Rightarrow> json" where
  "uri_of r = (case map_of r ''uri'' of None \<Rightarrow> JStr ''unknown'' | Some u \<Rightarrow> u)"

text \<open>What one declared property contributes: the findings of its \<open>default\<close>, then
  those of its \<open>description\<close>.\<close>

definition prop_findings :: "(json \<Rightarrow> string) \<Rightarrow> json \<Rightarrow> string \<times> json \<Rightarrow> string list" where
  "prop_findings fmt tool_name p =
     findings_of (check_default fmt tool_name (fst p) (snd p)) @
     findings_of (check_prop_description fmt tool_name (fst p) (snd p))"

text \<open>A required field of a resource: missing, or present and not text, is a finding.\<close>

definition spec_field_findings :: "(json \<Rightarrow> string) \<Rightarrow> (string \<times> json) list \<Rightarrow> string \<Rightarrow> string list" where
  "spec_field_findings fmt r field =
     (case map_of r field of
        None \<Rightarrow> [missing_field_issue fmt (uri_of r) field]
      | Some v \<Rightarrow> if is_str v then [] else [non_text_field_issue fmt (uri_of r) field])"

section \<open>More concrete sessions\<close>


text \<open>
  A server that answers the handshake and then prints a response whose \<open>id\<close> is an
  integer of 4301 digits.
\<close>

definition big_digits :: string where
  "big_digits = replicate 4300 (CHR ''1'')"

definition handshake_line :: string where
  \<open>handshake_line = ''{"jsonrpc":"2.0","id":1,"result":{"protocolVersion":"2024-11-05"}}''\<close>

definition big_int_line :: string where
  \<open>big_int_line = ''{"jsonrpc":"2.0","id":1'' @ big_digits @ ''}''\<close>

definition big_int_out :: string where
  "big_int_out = handshake_line @ [CHR 0x0A] @ big_int_line @ [CHR 0x0A]"

text \<open>A tool with a property whose default is \<open>[]\<close> and a property whose schema is \<open>true\<close>.\<close>

definition boolean_schema_tool :: json where
  "boolean_schema_tool =
     JObj [(''name'', JStr ''find''),
           (''inputSchema'', JObj
              [(''properties'', JObj
                  [(''a'', JObj [(''default'', JArr [])]),
                   (''b'', JBool True)])])]"

section \<open>Runs that end without an exception\<close>








section \<open>Evaluation of concrete runs\<close>

lemmas text_simps = startswith_def str_in_def sublist_code is_candidate_def
  py_strip_def lstrip_def rstrip_def ws1_def ws2_def ws3_def

lemmas decode_simps = loads_plain_def skip_ws_def json_ws_def dq_def scan_number_def
  scan_nat_def is_digit_def digits_value_def

lemma twice_run:
  "fst (send_sequence loads_plain (Completed twice_out [])) =
     [JObj [(''jsonrpc'', JStr ''2.0''), (''id'', JInt 1), (''result'', JObj [])],
      JObj [(''jsonrpc'', JStr ''2.0''), (''id'', JInt 1), (''result'', JObj [])]]"
  by (simp add: send_sequence_def twice_out_def text_simps decode_simps)

lemma bad_args_run:
  "fst (send_sequence loads_plain (Completed bad_args_out [])) =
     [handshake_ok,
      JObj [(''jsonrpc'', JStr ''2.0''), (''id'', JInt 2),
            (''error'', JObj [(''message'', JStr ''bad args'')])]]"
  by (simp add: send_sequence_def bad_args_out_def handshake_ok_def text_simps decode_simps)

lemma bad_args_candidates:
  \<open>candidate_lines bad_args_out =
     [''{"jsonrpc":"2.0","id":1,"result":{"protocolVersion":"2024-11-05"}}'',
      ''{"jsonrpc":"2.0","id":2,"error":{"message":"bad args"}}'']\<close>
  by (simp add: candidate_lines_def bad_args_out_def text_simps)

lemma bad_args_quiet: "\<not> decoder_raises loads_plain bad_args_out"
  by (simp add: decoder_raises_def bad_args_candidates decode_simps startswith_def)

text \<open>The run on the integer of 4301 digits, without unfolding the digits.\<close>

lemma big_digits_length: "length big_digits = 4300"
  by (simp add: big_digits_def)

lemma big_digits_set: "set big_digits = {CHR ''1''}"
  by (simp add: big_digits_def)

lemma big_digits_taken: "takeWhile is_digit (big_digits @ ''}'') = big_digits"
proof -
  have "\<And>x. x \<in> set big_digits \<Longrightarrow> is_digit x"
    by (simp add: big_digits_set is_digit_def)
  then have "takeWhile is_digit (big_digits @ ''}'') = big_digits @ takeWhile is_digit ''}''"
    by (rule takeWhile_append2)
  then show ?thesis by (simp add: is_digit_def)
qed

lemma split_nl_line: "CHR 0x0A \<notin> set a \<Longrightarrow> split_nl (a @ CHR 0x0A # b) = a # split_nl b"
  by (induction a) auto

lemma strip_front_keep:
  assumes "\<not> ws1 a" and "\<And>b. \<not> p2 a b" and "\<And>b c. \<not> p3 a b c"
  shows "strip_front p2 p3 (a # s) = a # s"
proof (cases s)
  case Nil
  then show ?thesis using assms by simp
next
  case (Cons b s')
  then show ?thesis using assms by (cases s') simp_all
qed

lemma py_strip_braces: "py_strip (CHR ''{'' # s @ ''}'') = CHR ''{'' # s @ ''}''"
proof -
  have l: "lstrip (CHR ''{'' # s @ ''}'') = CHR ''{'' # s @ ''}''"
    unfolding lstrip_def by (rule strip_front_keep) (simp_all add: ws1_def ws2_def ws3_def)
  have "strip_front (\<lambda>a b. ws2 b a) (\<lambda>a b c. ws3 c b a) (CHR ''}'' # rev s @ ''{'') =
          CHR ''}'' # rev s @ ''{''"
    by (rule strip_front_keep) (simp_all add: ws1_def ws2_def ws3_def)
  then have r: "rstrip (CHR ''{'' # s @ ''}'') = CHR ''{'' # s @ ''}''"
    by (simp add: rstrip_def)
  show ?thesis by (simp add: py_strip_def l r)
qed

lemma big_int_lines: "split_nl big_int_out = [handshake_line, big_int_line, []]"
proof -
  have a: "CHR 0x0A \<notin> set handshake_line"
    by (simp add: handshake_line_def)
  have b: "CHR 0x0A \<notin> set big_int_line"
    by (simp add: big_int_line_def big_digits_set)
  have "split_nl (big_int_line @ CHR 0x0A # []) = big_int_line # split_nl []"
    using b by (rule split_nl_line)
  moreover have "split_nl (handshake_line @ CHR 0x0A # (big_int_line @ [CHR 0x0A])) =
      handshake_line # split_nl (big_int_line @ [CHR 0x0A])"
    using a by (rule split_nl_line)
  ultimately show ?thesis by (simp add: big_int_out_def)
qed

lemma big_int_stripped: "py_strip big_int_line = big_int_line"
proof -
  have e: \<open>big_int_line = CHR ''{'' # (''"jsonrpc":"2.0","id":1'' @ big_digits) @ ''}''\<close>
    by (simp add: big_int_line_def)
  show ?thesis by (subst (1 2) e) (rule py_strip_braces)
qed

lemma handshake_stripped: "py_strip handshake_line = handshake_line"
  by (simp add: handshake_line_def text_simps)

lemma big_int_candidate: "is_candidate big_int_line"
  by (simp add: big_int_line_def is_candidate_def startswith_def str_in_def sublist_code)

lemma handshake_candidate: "is_candidate handshake_line"
  by (simp add: handshake_line_def is_candidate_def startswith_def str_in_def sublist_code)

lemma big_int_candidates: "candidate_lines big_int_out = [handshake_line, big_int_line]"
proof -
  have "\<not> is_candidate (py_strip [])"
    by (simp add: text_simps)
  then show ?thesis
    by (simp add: candidate_lines_def big_int_lines big_int_stripped handshake_stripped
          big_int_candidate handshake_candidate)
qed

lemma handshake_decoded: "loads_plain handshake_line = Decoded handshake_ok"
  by (simp add: handshake_line_def handshake_ok_def decode_simps startswith_def)

lemma big_int_parse:
  "parse_value (Suc (Suc (Suc (Suc k)))) big_int_line = Overflow ValueError"
  by (simp add: big_int_line_def skip_ws_def json_ws_def dq_def scan_number_def scan_nat_def
        is_digit_def startswith_def big_digits_taken big_digits_length)

lemma big_int_raises: "loads_plain big_int_line = Raised ValueError"
proof -
  have len: "Suc (length big_int_line) = Suc (Suc (Suc (Suc 4321)))"
    by (simp add: big_int_line_def big_digits_length)
  have ws: "skip_ws big_int_line = big_int_line"
    by (simp add: big_int_line_def skip_ws_def json_ws_def)
  show ?thesis
    unfolding loads_plain_def len ws big_int_parse by simp
qed

section \<open>The scan returns the candidate lines that decode\<close>

lemma collect_responses_quiet:
  "\<not> list_ex (\<lambda>l. raises (loads l)) (filter is_candidate (map py_strip raws)) \<Longrightarrow>
     collect_responses loads raws acc =
       Inr (acc @ map (\<lambda>l. parse_of (loads l))
              (filter (\<lambda>l. decodes (loads l)) (filter is_candidate (map py_strip raws))))"
proof (induction raws arbitrary: acc)
  case Nil
  then show ?case by simp
next
  case (Cons raw raws)
  then show ?case
    by (cases "loads (py_strip raw)") (auto simp: Let_def split: if_splits)
qed

lemma collect_responses_raise:
  "list_ex (\<lambda>l. raises (loads l)) (filter is_candidate (map py_strip raws)) \<Longrightarrow>
     isl (collect_responses loads raws acc)"
proof (induction raws arbitrary: acc)
  case Nil
  then show ?case by simp
next
  case (Cons raw raws)
  then show ?case
    by (cases "loads (py_strip raw)") (auto simp: Let_def split: if_splits)
qed

lemma send_sequence_completed:
  "fst (send_sequence loads (Completed out err)) =
     (if decoder_raises loads out then [] else spec_responses loads out)"
proof (cases "decoder_raises loads out")
  case True
  then have "isl (collect_responses loads (split_nl out) [])"
    unfolding decoder_raises_def candidate_lines_def by (rule collect_responses_raise)
  then show ?thesis using True
    by (cases "collect_responses loads (split_nl out) []") (simp_all add: send_sequence_def)
next
  case False
  then have "collect_responses loads (split_nl out) [] = Inr ([] @ spec_responses loads out)"
    unfolding decoder_raises_def candidate_lines_def spec_responses_def decoded_lines_def
    by (rule collect_responses_quiet)
  then show ?thesis using False by (simp add: send_sequence_def)
qed

text \<open>
  C1, as the code has it. For every captured stdout on which \<open>json.loads\<close> raises
  nothing but \<open>JSONDecodeError\<close>, \<open>send_sequence\<close> returns exactly the parses of the
  whitespace-stripped lines that begin with \<open>{\<close>, contain the marker \<open>"jsonrpc"\<close>
  (quotes included, as the code tests it) and decode, in their order in the output;
  every other line is skipped. When \<open>json.loads\<close> raises another exception on a
  candidate line, \<open>send_sequence\<close> returns no response at all.
\<close>

theorem send_sequence_extracts_candidates:
  "(\<not> decoder_raises loads out \<longrightarrow>
      fst (send_sequence loads (Completed out err)) = spec_responses loads out) \<and>
   (decoder_raises loads out \<longrightarrow>
      fst (send_sequence loads (Completed out err)) = [])"
  by (simp add: send_sequence_completed)

theorem send_sequence_extracts_candidates_witness:
  "\<not> decoder_raises loads_plain bad_args_out \<and>
   spec_responses loads_plain bad_args_out =
     [handshake_ok,
      JObj [(''jsonrpc'', JStr ''2.0''), (''id'', JInt 2),
            (''error'', JObj [(''message'', JStr ''bad args'')])]] \<and>
   fst (send_sequence loads_plain (Completed bad_args_out [])) =
     spec_responses loads_plain bad_args_out"
  using send_sequence_extracts_candidates [of loads_plain bad_args_out "[]"]
  by (simp add: bad_args_quiet spec_responses_def decoded_lines_def bad_args_candidates
        handshake_ok_def decode_simps startswith_def)

text \<open>
  C1 as stated fails: the handshake line decodes, but the line after it holds an
  integer of 4301 digits, on which \<open>json.loads\<close> raises \<open>ValueError\<close>; the handler
  \<open>except Exception\<close> then returns \<open>[]\<close> and the decoded handshake is lost.
\<close>

theorem send_sequence_extracts_candidates_counterexample:
  "spec_responses loads_plain big_int_out = [handshake_ok] \<and>
   fst (send_sequence loads_plain (Completed big_int_out [])) = []"
proof -
  have r: "decoder_raises loads_plain big_int_out"
    by (simp add: decoder_raises_def big_int_candidates big_int_raises)
  have s: "spec_responses loads_plain big_int_out = [handshake_ok]"
    by (simp add: spec_responses_def decoded_lines_def big_int_candidates big_int_raises
          handshake_decoded)
  show ?thesis using r s by (simp add: send_sequence_completed)
qed

section \<open>Timeout\<close>

text \<open>
  C2, as the code has it. When the timeout elapses, \<open>send_sequence\<close> returns no
  response and \<open>send_message\<close> returns \<open>None\<close>, both as ordinary results; the child is
  not killed: it is still running when control returns.
\<close>

theorem timeout_returns_nothing_and_leaves_child:
  "send_sequence loads TimeoutExpired = ([], StillRunning) \<and>
   send_message loads TimeoutExpired = (None, StillRunning)"
  by (simp add: send_sequence_def send_message_def)

text \<open>
  C2 as stated fails: after a timeout the child is not killed.
\<close>

theorem timeout_kills_child_counterexample:
  "\<not> (fst (send_sequence loads_plain TimeoutExpired) = [] \<and>
      snd (send_sequence loads_plain TimeoutExpired) \<noteq> StillRunning)"
  by (simp add: send_sequence_def)

section \<open>Duplicates\<close>

lemma healthy_candidates:
  \<open>candidate_lines healthy_out =
     [''{"jsonrpc":"2.0","id":1,"result":{"protocolVersion":"2024-11-05"}}'',
      ''{"jsonrpc":"2.0","id":2,"result":{"tools":[]}}'']\<close>
  by (simp add: candidate_lines_def healthy_out_def text_simps)

lemma healthy_quiet: "\<not> decoder_raises loads_plain healthy_out"
  by (simp add: decoder_raises_def healthy_candidates decode_simps startswith_def)

lemma healthy_responses:
  "spec_responses loads_plain healthy_out =
     [handshake_ok,
      JObj [(''jsonrpc'', JStr ''2.0''), (''id'', JInt 2), (''result'', JObj [(''tools'', JArr [])])]]"
  by (simp add: spec_responses_def decoded_lines_def healthy_candidates handshake_ok_def
        decode_simps startswith_def)

text \<open>
  C7, as the code has it. When \<open>json.loads\<close> raises nothing but \<open>JSONDecodeError\<close>,
  the list returned has one response per candidate line that decodes, the \<open>i\<close>-th
  response being the parse of the \<open>i\<close>-th such line; so it is duplicate-free exactly
  when those lines decode to pairwise different values. When \<open>json.loads\<close> raises
  another exception on a candidate line, the list returned is empty.
\<close>

theorem one_response_per_decoded_line:
  "(\<not> decoder_raises loads out \<longrightarrow>
      length (fst (send_sequence loads (Completed out err))) = length (decoded_lines loads out) \<and>
      (\<forall>i < length (decoded_lines loads out).
         fst (send_sequence loads (Completed out err)) ! i =
           parse_of (loads (decoded_lines loads out ! i))) \<and>
      distinct (fst (send_sequence loads (Completed out err))) =
        distinct (map (\<lambda>l. parse_of (loads l)) (decoded_lines loads out))) \<and>
   (decoder_raises loads out \<longrightarrow> fst (send_sequence loads (Completed out err)) = [])"
  by (simp add: send_sequence_completed spec_responses_def)

theorem one_response_per_decoded_line_witness:
  "\<not> decoder_raises loads_plain healthy_out \<and>
   length (decoded_lines loads_plain healthy_out) = 2 \<and>
   length (fst (send_sequence loads_plain (Completed healthy_out []))) = 2 \<and>
   fst (send_sequence loads_plain (Completed healthy_out [])) ! 0 = handshake_ok \<and>
   distinct (fst (send_sequence loads_plain (Completed healthy_out [])))"
proof -
  have d: "map (\<lambda>l. parse_of (loads_plain l)) (decoded_lines loads_plain healthy_out) =
      [handshake_ok,
       JObj [(''jsonrpc'', JStr ''2.0''), (''id'', JInt 2), (''result'', JObj [(''tools'', JArr [])])]]"
    using healthy_responses by (simp add: spec_responses_def)
  have "length (map (\<lambda>l. parse_of (loads_plain l)) (decoded_lines loads_plain healthy_out)) = 2"
    unfolding d by simp
  then have n: "length (decoded_lines loads_plain healthy_out) = 2"
    by simp
  have "map (\<lambda>l. parse_of (loads_plain l)) (decoded_lines loads_plain healthy_out) ! 0 = handshake_ok"
    unfolding d by simp
  then have h: "parse_of (loads_plain (decoded_lines loads_plain healthy_out ! 0)) = handshake_ok"
    using n by simp
  show ?thesis
    using one_response_per_decoded_line [of loads_plain healthy_out "[]"] healthy_quiet d n h
    by (simp add: handshake_ok_def)
qed

text \<open>
  C7 as stated fails: a server that prints a response line twice gets it back twice.
\<close>

theorem duplicate_free_counterexample:
  "\<not> distinct (fst (send_sequence loads_plain (Completed twice_out [])))"
  by (simp add: twice_run)

section \<open>The call-tool scenario on an error response\<close>

text \<open>
  C4. When the second recovered response has no \<open>result\<close> and an \<open>error\<close> object whose
  \<open>message\<close> is text, \<open>test_call_tool\<close> returns a failing verdict whose message is
  \<open>Tool error: \<close> followed by that text.
\<close>

theorem call_tool_reports_error_message:
  assumes "fst (send_sequence loads env) = rs" and "length rs \<ge> 2"
    and "rs ! 1 = JObj kvs" and "map_of kvs ''result'' = None"
    and "map_of kvs ''error'' = Some (JObj ekvs)"
    and "map_of ekvs ''message'' = Some (JStr m)"
  shows "test_call_tool loads fmt tn (env, t0, t1) =
           Inr \<lparr>name = ''Call Tool: '' @ tn, passed = False, message = ''Tool error: '' @ m,
                duration = t1 - t0, response = Some (rs ! 1)\<rparr> \<and>
         str_in m (''Tool error: '' @ m)"
proof -
  have nores: "''result'' \<notin> fst ` set kvs"
    using assms(4) by (simp add: map_of_eq_None_iff)
  have err: "''error'' \<in> fst ` set kvs"
    using assms(5) by (metis domI dom_map_of_conv_image_fst)
  have "sublist m (''Tool error: '' @ m @ [])"
    by (rule sublist_appendI)
  then have inc: "str_in m (''Tool error: '' @ m)"
    by (simp add: str_in_def)
  show ?thesis
    using assms nores err inc
    by (simp add: test_call_tool_def judge_call_tool_def Let_def)
qed

theorem call_tool_reports_error_message_witness:
  "test_call_tool loads_plain str_plain ''GET__tools_info'' (Completed bad_args_out [], 0, 1) =
     Inr \<lparr>name = ''Call Tool: GET__tools_info'', passed = False,
          message = ''Tool error: bad args'', duration = 1,
          response = Some (JObj [(''jsonrpc'', JStr ''2.0''), (''id'', JInt 2),
                                 (''error'', JObj [(''message'', JStr ''bad args'')])])\<rparr>"
  using call_tool_reports_error_message
    [of loads_plain "Completed bad_args_out []" _
        "[(''jsonrpc'', JStr ''2.0''), (''id'', JInt 2),
          (''error'', JObj [(''message'', JStr ''bad args'')])]"
        "[(''message'', JStr ''bad args'')]" "''bad args''" str_plain "''GET__tools_info''" 0 1,
     OF bad_args_run]
  by simp

section \<open>Scenarios and malformed responses\<close>

lemma py_in_obj: "py_in k (JObj kvs) = Inr (map_of kvs k \<noteq> None)"
  by (simp add: map_of_eq_None_iff)

lemma has_len_py_len: "has_len v \<Longrightarrow> \<exists>n. py_len v = Inr n"
  by (cases v) auto

lemma is_dict_obj: "is_dict v \<Longrightarrow> \<exists>kvs. v = JObj kvs"
  by (cases v) auto

lemma wire_ok_obj: "wire_ok r \<Longrightarrow> \<exists>kvs. r = JObj kvs"
  by (cases r) (auto simp: wire_ok_def)

lemma judge_list_returns:
  assumes "list_all wire_ok rs" "key = ''tools'' \<or> key = ''resources''"
  shows "\<not> isl (judge_list nm key failmsg rs dur)"
proof (cases "length rs \<ge> 2")
  case False
  then show ?thesis by (simp add: judge_list_def Let_def)
next
  case True
  then have "wire_ok (rs ! 1)" using assms(1) by (simp add: list_all_length)
  then obtain kvs where r: "rs ! 1 = JObj kvs" and w: "wire_ok (JObj kvs)"
    using wire_ok_obj by metis
  show ?thesis
  proof (cases "map_of kvs ''result''")
    case None
    then show ?thesis using True r by (simp add: judge_list_def Let_def py_in_obj del: py_in.simps)
  next
    case (Some res)
    then have "result_ok res" using w by (simp add: wire_ok_def)
    then obtain rs' where res: "res = JObj rs'"
      and t: "case map_of rs' ''tools'' of None \<Rightarrow> True | Some v \<Rightarrow> has_len v"
      and u: "case map_of rs' ''resources'' of None \<Rightarrow> True | Some v \<Rightarrow> has_len v"
      by (cases res) (auto simp: result_ok_def)
    have "has_len (case map_of rs' key of None \<Rightarrow> JArr [] | Some v \<Rightarrow> v)"
      using assms(2) t u by (auto split: option.splits)
    then obtain n where "py_len (case map_of rs' key of None \<Rightarrow> JArr [] | Some v \<Rightarrow> v) = Inr n"
      using has_len_py_len by blast
    then show ?thesis using True r Some res
      by (simp add: judge_list_def Let_def py_in_obj del: py_in.simps)
  qed
qed

lemma judge_list_short:
  "length rs < 2 \<Longrightarrow> judge_list nm key failmsg rs dur =
     Inr \<lparr>name = nm, passed = False, message = failmsg, duration = dur, response = None\<rparr>"
  by (simp add: judge_list_def Let_def second_or_none_def)

lemma judge_call_tool_returns:
  assumes "list_all wire_ok rs"
  shows "\<not> isl (judge_call_tool fmt tn rs dur)"
proof (cases "length rs \<ge> 2")
  case False
  then show ?thesis by (simp add: judge_call_tool_def Let_def)
next
  case True
  then have "wire_ok (rs ! 1)" using assms(1) by (simp add: list_all_length)
  then obtain kvs where r: "rs ! 1 = JObj kvs" and w: "wire_ok (JObj kvs)"
    using wire_ok_obj by metis
  show ?thesis using True r w
    by (auto simp: judge_call_tool_def Let_def py_in_obj wire_ok_def
          simp del: py_in.simps split: option.splits json.splits dest!: is_dict_obj)
qed

lemma judge_call_tool_short:
  "length rs < 2 \<Longrightarrow> judge_call_tool fmt tn rs dur =
     Inr \<lparr>name = ''Call Tool: '' @ tn, passed = False, message = ''No response from tool'',
          duration = dur, response = None\<rparr>"
  by (simp add: judge_call_tool_def Let_def second_or_none_def)

lemma judge_initialize_returns:
  assumes "case resp of None \<Rightarrow> True | Some r \<Rightarrow> wire_ok r"
  shows "\<not> isl (judge_initialize fmt resp dur)"
proof (cases resp)
  case None
  then show ?thesis by (simp add: judge_initialize_def)
next
  case (Some r)
  then obtain kvs where r: "r = JObj kvs" and w: "wire_ok (JObj kvs)"
    using assms wire_ok_obj by fastforce
  show ?thesis using Some r w
    by (auto simp: judge_initialize_def py_in_obj wire_ok_def result_ok_def
          simp del: py_in.simps split: option.splits json.splits)
qed

lemma judge_invalid_method_returns:
  assumes "case resp of None \<Rightarrow> True | Some r \<Rightarrow> wire_ok r"
  shows "\<not> isl (judge_invalid_method fmt resp dur)"
proof (cases resp)
  case None
  then show ?thesis by (simp add: judge_invalid_method_def)
next
  case (Some r)
  then obtain kvs where r: "r = JObj kvs" and w: "wire_ok (JObj kvs)"
    using assms wire_ok_obj by fastforce
  show ?thesis using Some r w
    by (auto simp: judge_invalid_method_def py_in_obj wire_ok_def
          simp del: py_in.simps split: option.splits json.splits dest!: is_dict_obj)
qed

text \<open>
  C8, as the code has it. On responses of the wire format (objects whose \<open>result\<close> and
  \<open>error\<close>, where present, are objects, with \<open>tools\<close> and \<open>resources\<close> of a result
  having a length) every scenario returns a verdict and does not raise. With fewer
  than two responses the two-request scenarios return their failing verdict (\<open>Failed
  to get tools list\<close>, \<open>Failed to get resources list\<close>, \<open>No response from tool\<close>), and
  with no response the one-request scenarios return theirs.
\<close>

theorem scenarios_return_verdicts:
  assumes "list_all wire_ok rs" and "case resp of None \<Rightarrow> True | Some r \<Rightarrow> wire_ok r"
  shows "\<not> isl (judge_initialize fmt resp dur) \<and>
         \<not> isl (judge_tools_list rs dur) \<and>
         \<not> isl (judge_resources_list rs dur) \<and>
         \<not> isl (judge_call_tool fmt tn rs dur) \<and>
         \<not> isl (judge_invalid_method fmt resp dur) \<and>
         (length rs < 2 \<longrightarrow>
            judge_tools_list rs dur =
              Inr \<lparr>name = ''List Tools'', passed = False,
                   message = ''Failed to get tools list'', duration = dur, response = None\<rparr> \<and>
            judge_resources_list rs dur =
              Inr \<lparr>name = ''List Resources'', passed = False,
                   message = ''Failed to get resources list'', duration = dur, response = None\<rparr> \<and>
            judge_call_tool fmt tn rs dur =
              Inr \<lparr>name = ''Call Tool: '' @ tn, passed = False,
                   message = ''No response from tool'', duration = dur, response = None\<rparr>) \<and>
         (resp = None \<longrightarrow>
            judge_initialize fmt resp dur = Inr (initialize_failed None dur) \<and>
            judge_invalid_method fmt resp dur = Inr (invalid_method_failed None dur))"
proof -
  have short: "resp = None \<longrightarrow>
      judge_initialize fmt resp dur = Inr (initialize_failed None dur) \<and>
      judge_invalid_method fmt resp dur = Inr (invalid_method_failed None dur)"
    by (simp add: judge_initialize_def judge_invalid_method_def)
  show ?thesis
    using assms short
    by (simp add: judge_initialize_returns judge_invalid_method_returns judge_call_tool_returns
        judge_list_returns judge_tools_list_def judge_resources_list_def judge_list_short
        judge_call_tool_short)
qed

theorem scenarios_return_verdicts_witness:
  "list_all wire_ok [handshake_ok] \<and>
   \<not> isl (judge_initialize str_plain None 1) \<and>
   judge_tools_list [handshake_ok] 1 =
     Inr \<lparr>name = ''List Tools'', passed = False, message = ''Failed to get tools list'',
          duration = 1, response = None\<rparr> \<and>
   judge_call_tool str_plain ''POST__tools_find'' [handshake_ok] 1 =
     Inr \<lparr>name = ''Call Tool: POST__tools_find'', passed = False,
          message = ''No response from tool'', duration = 1, response = None\<rparr> \<and>
   judge_invalid_method str_plain None 1 = Inr (invalid_method_failed None 1)"
  using scenarios_return_verdicts [of "[handshake_ok]" None str_plain 1 "''POST__tools_find''"]
  by (simp add: wire_ok_def result_ok_def handshake_ok_def)

lemma number_run:
  "fst (send_sequence loads_plain (Completed number_out [])) =
     [handshake_ok, JObj [(''jsonrpc'', JStr ''2.0''), (''id'', JInt 2), (''result'', JInt 5)]]"
  by (simp add: send_sequence_def number_out_def handshake_ok_def text_simps decode_simps)

text \<open>
  C8 as stated fails: \<open>test_tools_list\<close> raises \<open>AttributeError\<close> when the second
  response has the number 5 as its \<open>result\<close> (\<open>responses[1]["result"].get\<close>).
\<close>

theorem scenario_never_raises_counterexample:
  "test_tools_list loads_plain (Completed number_out [], 0, 1) = Inl AttributeError"
  unfolding test_tools_list_def prod.case number_run
  by (simp add: judge_tools_list_def judge_list_def handshake_ok_def)

section \<open>The exit status of the scenario runner\<close>












section \<open>Findings of the validators\<close>

lemma dict_items_subset: "set (dict_items kvs) \<subseteq> set kvs"
  by (induction kvs rule: dict_items.induct) auto

lemma check_default_dict:
  "check_default fmt tn pn (JObj pd) = Inr (findings_of (check_default fmt tn pn (JObj pd)))"
  by (auto simp: check_default_def findings_of_def py_in_obj simp del: py_in.simps split: option.splits)

lemma check_prop_description_dict:
  "check_prop_description fmt tn pn (JObj pd) =
     Inr (findings_of (check_prop_description fmt tn pn (JObj pd)))"
  by (auto simp: check_prop_description_def findings_of_def py_in_obj simp del: py_in.simps split: option.splits)

lemma check_tool_description_dict:
  "check_tool_description fmt tn (JObj t) =
     Inr (findings_of (check_tool_description fmt tn (JObj t)))"
  by (auto simp: check_tool_description_def findings_of_def py_in_obj simp del: py_in.simps split: option.splits)

lemma props_loop_dicts:
  "list_all (\<lambda>p. is_dict (snd p)) items \<Longrightarrow>
     props_loop fmt tn items acc = Inr (acc @ concat (map (prop_findings fmt tn) items))"
proof (induction items arbitrary: acc)
  case Nil
  then show ?case by simp
next
  case (Cons p items)
  then obtain pd where pd: "snd p = JObj pd" using is_dict_obj by auto
  have a: "check_default fmt tn (fst p) (snd p) = Inr (findings_of (check_default fmt tn (fst p) (snd p)))"
    unfolding pd by (rule check_default_dict)
  have b: "check_prop_description fmt tn (fst p) (snd p) = Inr (findings_of (check_prop_description fmt tn (fst p) (snd p)))"
    unfolding pd by (rule check_prop_description_dict)
  have "props_loop fmt tn (p # items) acc =
          props_loop fmt tn items (acc @ findings_of (check_default fmt tn (fst p) (snd p)) @
             findings_of (check_prop_description fmt tn (fst p) (snd p)))"
    by (subst props_loop.simps, subst a, subst b) simp
  then show ?case using Cons by (simp add: prop_findings_def)
qed

lemma warning_not_critical: "is_warning i \<Longrightarrow> \<not> is_critical i"
  by (auto simp: is_warning_def is_critical_def startswith_def warn_def cross_def prefix_def)

lemma critical_cross: "is_critical (cross @ s)"
  by (simp add: is_critical_def startswith_def)

lemma warning_warn: "is_warning (warn @ s)"
  by (simp add: is_warning_def startswith_def)

text \<open>
  C5, as the code has it. For a tool (an object) whose input schema declares
  properties that are all objects, the validator returns the findings of the tool's
  description followed by what each declared property contributes, in order. The
  \<open>default\<close> of a property that is an object contributes exactly one advisory
  finding when it is the empty list, exactly one blocking finding when it is a
  non-empty list whose first element is the text \<open>c\<close>, and none when it is null or
  absent. (A \<open>description\<close> that is not text contributes its own finding.)
\<close>

theorem default_rule_findings:
  "(map_of pd ''default'' = Some (JArr []) \<longrightarrow>
      check_default fmt tn pn (JObj pd) = Inr [empty_default_issue fmt tn pn] \<and>
      is_warning (empty_default_issue fmt tn pn) \<and>
      \<not> is_critical (empty_default_issue fmt tn pn)) \<and>
   (map_of pd ''default'' = Some (JArr (JStr ''c'' # xs)) \<longrightarrow>
      check_default fmt tn pn (JObj pd) =
        Inr [malformed_default_issue fmt tn pn (JArr (JStr ''c'' # xs))] \<and>
      is_critical (malformed_default_issue fmt tn pn (JArr (JStr ''c'' # xs)))) \<and>
   (map_of pd ''default'' = None \<or> map_of pd ''default'' = Some JNull \<longrightarrow>
      check_default fmt tn pn (JObj pd) = Inr []) \<and>
   (map_of t ''inputSchema'' = Some (JObj sch) \<and>
    map_of sch ''properties'' = Some (JObj props) \<and>
    list_all (\<lambda>p. is_dict (snd p)) props \<longrightarrow>
      validate_tool_schema fmt (JObj t) =
        Inr (findings_of (check_tool_description fmt (name_of t) (JObj t)) @
             concat (map (prop_findings fmt (name_of t)) (dict_items props))))"
proof -
  have whole: "validate_tool_schema fmt (JObj t) =
           Inr (findings_of (check_tool_description fmt (name_of t) (JObj t)) @
                concat (map (prop_findings fmt (name_of t)) (dict_items props)))"
    if schema: "map_of t ''inputSchema'' = Some (JObj sch)"
      and properties: "map_of sch ''properties'' = Some (JObj props)"
      and dicts: "list_all (\<lambda>p. is_dict (snd p)) props"
  proof -
    have items: "list_all (\<lambda>p. is_dict (snd p)) (dict_items props)"
      using dicts dict_items_subset [of props] by (auto simp: list_all_iff)
    define d where "d = findings_of (check_tool_description fmt (name_of t) (JObj t))"
    have nm: "py_get (JObj t) ''name'' (JStr ''unknown'') = Inr (name_of t)"
      by (simp add: name_of_def)
    have desc: "check_tool_description fmt (name_of t) (JObj t) = Inr d"
      unfolding d_def by (rule check_tool_description_dict)
    have loop: "props_loop fmt (name_of t) (dict_items props) d =
                  Inr (d @ concat (map (prop_findings fmt (name_of t)) (dict_items props)))"
      using items by (rule props_loop_dicts)
    have "validate_tool_schema fmt (JObj t) =
             Inr (d @ concat (map (prop_findings fmt (name_of t)) (dict_items props)))"
      using schema properties
      by (simp add: validate_tool_schema_def nm desc loop py_in_obj del: py_in.simps py_get.simps)
    then show ?thesis unfolding d_def .
  qed
  have w: "is_warning (empty_default_issue fmt tn pn)"
    by (simp add: empty_default_issue_def warning_warn)
  have c: "is_critical (malformed_default_issue fmt tn pn (JArr (JStr ''c'' # xs)))"
    by (simp add: malformed_default_issue_def critical_cross)
  have rule: "(map_of pd ''default'' = Some (JArr []) \<longrightarrow>
        check_default fmt tn pn (JObj pd) = Inr [empty_default_issue fmt tn pn]) \<and>
      (map_of pd ''default'' = Some (JArr (JStr ''c'' # xs)) \<longrightarrow>
        check_default fmt tn pn (JObj pd) =
          Inr [malformed_default_issue fmt tn pn (JArr (JStr ''c'' # xs))]) \<and>
      (map_of pd ''default'' = None \<or> map_of pd ''default'' = Some JNull \<longrightarrow>
        check_default fmt tn pn (JObj pd) = Inr [])"
    by (auto simp: check_default_def py_in_obj simp del: py_in.simps)
  show ?thesis
    using whole w c warning_not_critical [OF w] rule by blast
qed

theorem default_rule_findings_witness:
  "validate_tool_schema str_plain demo_tool =
     Inr [warn @ ''  find.a: 'default' is empty array [] - should be null or omitted'',
          cross @ '' find.b: 'default' contains malformed array (R c() function?): ['c', 'symbol']''] \<and>
   check_default str_plain (JStr ''find'') ''a'' (JObj [(''default'', JArr [])]) =
     Inr [warn @ ''  find.a: 'default' is empty array [] - should be null or omitted'']"
  using default_rule_findings
    [where t = "[(''name'', JStr ''find''), (''description'', JStr ''Find genes''),
           (''inputSchema'', JObj
              [(''type'', JStr ''object''),
               (''properties'', JObj
                  [(''a'', JObj [(''default'', JArr [])]),
                   (''b'', JObj [(''default'', JArr [JStr ''c'', JStr ''symbol''])]),
                   (''c'', JObj [(''default'', JNull)]),
                   (''d'', JObj [(''type'', JStr ''string'')])])])]"
       and sch = "[(''type'', JStr ''object''),
               (''properties'', JObj
                  [(''a'', JObj [(''default'', JArr [])]),
                   (''b'', JObj [(''default'', JArr [JStr ''c'', JStr ''symbol''])]),
                   (''c'', JObj [(''default'', JNull)]),
                   (''d'', JObj [(''type'', JStr ''string'')])])]"
       and props = "[(''a'', JObj [(''default'', JArr [])]),
                   (''b'', JObj [(''default'', JArr [JStr ''c'', JStr ''symbol''])]),
                   (''c'', JObj [(''default'', JNull)]),
                   (''d'', JObj [(''type'', JStr ''string'')])]"
       and fmt = str_plain and pd = "[(''default'', JArr [])]" and tn = "JStr ''find''"
       and pn = "''a''" and xs = "[]"]
  by (simp add: demo_tool_def name_of_def prop_findings_def findings_of_def
        check_tool_description_def check_default_def check_prop_description_def
        empty_default_issue_def malformed_default_issue_def sq_def)

text \<open>
  C5 as stated fails: when another declared property is not an object (here the
  schema \<open>true\<close>), the validator raises \<open>TypeError\<close> (\<open>"default" in prop_def\<close>) and the
  default \<open>[]\<close> of property \<open>a\<close> yields no finding.
\<close>

theorem default_rule_findings_counterexample:
  "validate_tool_schema str_plain boolean_schema_tool = Inl TypeError"
  by (simp add: boolean_schema_tool_def validate_tool_schema_def check_tool_description_def
        check_default_def check_prop_description_def)

lemma fields_loop_obj:
  "fields_loop fmt uri (JObj r) fs acc =
     Inr (acc @ concat (map (\<lambda>f. case map_of r f of
                                   None \<Rightarrow> [missing_field_issue fmt uri f]
                                 | Some v \<Rightarrow> if is_str v then [] else [non_text_field_issue fmt uri f])
                           fs))"
  by (induction fs arbitrary: acc)
     (auto simp: check_field_def py_in_obj simp del: py_in.simps split: option.splits)

lemma str_in_middle: "str_in u (a @ u @ b)"
  by (simp add: str_in_def)

text \<open>
  C9. For a resource, the validator returns the findings of \<open>uri\<close>, of \<open>name\<close> and of
  \<open>mimeType\<close>, in this order: one finding for a field that is missing, one for a
  field that is present and not text, none otherwise. A missing \<open>mimeType\<close> gives
  exactly the one finding \<open>missing required field 'mimeType'\<close>. Each such finding is
  blocking, contains the name of the field and, when the \<open>uri\<close> is text, the uri.
\<close>

theorem resource_field_findings:
  "validate_resource_schema fmt (JObj r) =
     Inr (spec_field_findings fmt r ''uri'' @ spec_field_findings fmt r ''name'' @
          spec_field_findings fmt r ''mimeType'') \<and>
   (map_of r ''mimeType'' = None \<longrightarrow>
      spec_field_findings fmt r ''mimeType'' = [missing_field_issue fmt (uri_of r) ''mimeType'']) \<and>
   is_critical (missing_field_issue fmt u field) \<and>
   is_critical (non_text_field_issue fmt u field) \<and>
   str_in field (missing_field_issue fmt u field) \<and>
   str_in field (non_text_field_issue fmt u field) \<and>
   str_in s (missing_field_issue fmt (JStr s) field) \<and>
   str_in s (non_text_field_issue fmt (JStr s) field)"
proof -
  have whole: "validate_resource_schema fmt (JObj r) =
     Inr (spec_field_findings fmt r ''uri'' @ spec_field_findings fmt r ''name'' @
          spec_field_findings fmt r ''mimeType'')"
  proof -
    have u: "py_get (JObj r) ''uri'' (JStr ''unknown'') = Inr (uri_of r)"
      by (simp add: uri_of_def)
    show ?thesis
      by (simp add: validate_resource_schema_def u fields_loop_obj spec_field_findings_def
            del: fields_loop.simps py_get.simps)
  qed
  have f1: "str_in field (missing_field_issue fmt u field)"
    using str_in_middle [of field "cross @ '' Resource '' @ py_format fmt u @ '': missing required field '' @ sq" sq]
    by (simp add: missing_field_issue_def)
  have f2: "str_in field (non_text_field_issue fmt u field)"
    using str_in_middle [of field "cross @ '' Resource '' @ py_format fmt u @ '': '' @ sq" "sq @ '' must be a string''"]
    by (simp add: non_text_field_issue_def)
  have u1: "str_in s (missing_field_issue fmt (JStr s) field)"
    using str_in_middle [of s "cross @ '' Resource ''" "'': missing required field '' @ sq @ field @ sq"]
    by (simp add: missing_field_issue_def)
  have u2: "str_in s (non_text_field_issue fmt (JStr s) field)"
    using str_in_middle [of s "cross @ '' Resource ''" "'': '' @ sq @ field @ sq @ '' must be a string''"]
    by (simp add: non_text_field_issue_def)
  show ?thesis
    using whole f1 f2 u1 u2
    by (simp add: spec_field_findings_def missing_field_issue_def non_text_field_issue_def critical_cross)
qed

theorem resource_field_findings_witness:
  "validate_resource_schema str_plain
      (JObj [(''uri'', JStr ''hgnc://snapshot''), (''name'', JStr ''Snapshot'')]) =
     Inr [cross @ '' Resource hgnc://snapshot: missing required field '' @ sq @ ''mimeType'' @ sq]"
  using resource_field_findings [of str_plain "[(''uri'', JStr ''hgnc://snapshot''), (''name'', JStr ''Snapshot'')]"]
  by (simp add: spec_field_findings_def uri_of_def missing_field_issue_def)

section \<open>The exit status of the validator\<close>














section \<open>Capabilities by id\<close>

lemma store_loop_quiet:
  "\<not> list_ex (\<lambda>l. raises (loads l)) (filter is_candidate (map py_strip raws)) \<Longrightarrow>
     store_loop loads raws m =
       store_all (map (\<lambda>l. parse_of (loads l))
         (filter (\<lambda>l. decodes (loads l)) (filter is_candidate (map py_strip raws)))) m"
proof (induction raws arbitrary: m)
  case Nil
  then show ?case by simp
next
  case (Cons raw raws)
  show ?case
  proof (cases "is_candidate (py_strip raw)")
    case False
    then show ?thesis using Cons by simp
  next
    case True
    show ?thesis
    proof (cases "loads (py_strip raw)")
      case (Decoded v)
      then have rest: "\<not> list_ex (\<lambda>l. raises (loads l)) (filter is_candidate (map py_strip raws))"
        using Cons.prems True by simp
      show ?thesis
        using True Decoded Cons.IH [OF rest]
        by (cases "store_response v m") simp_all
    next
      case JSONDecodeError
      then show ?thesis using True Cons by simp
    next
      case (Raised e)
      then show ?thesis using True Cons.prems by simp
    qed
  qed
qed

lemma store_loop_raise:
  "list_ex (\<lambda>l. raises (loads l)) (filter is_candidate (map py_strip raws)) \<Longrightarrow>
     isl (store_loop loads raws m)"
proof (induction raws arbitrary: m)
  case Nil
  then show ?case by simp
next
  case (Cons raw raws)
  show ?case
  proof (cases "is_candidate (py_strip raw)")
    case False
    then show ?thesis using Cons by simp
  next
    case True
    show ?thesis
    proof (cases "loads (py_strip raw)")
      case (Decoded v)
      then have rest: "list_ex (\<lambda>l. raises (loads l)) (filter is_candidate (map py_strip raws))"
        using Cons.prems True by simp
      show ?thesis
        using True Decoded Cons.IH [OF rest]
        by (cases "store_response v m") simp_all
    next
      case JSONDecodeError
      then show ?thesis using True Cons by simp
    next
      case (Raised e)
      then show ?thesis using True by simp
    qed
  qed
qed

lemma is_hashable_key: "is_hashable i \<Longrightarrow> \<exists>k. hash_key i = Inr k"
  by (cases i) auto

lemma store_response_storable:
  assumes "storable r"
  shows "\<exists>m'. store_response r m = Inr m' \<and>
           (\<forall>k. m' (KNum k) = (if answers k r then Some (result_of r) else m (KNum k)))"
proof -
  obtain kvs where r: "r = JObj kvs"
    using assms by (cases r) (auto simp: storable_def)
  show ?thesis
  proof (cases "map_of kvs ''id''")
    case None
    then show ?thesis
      by (simp add: r store_response_def py_in_obj answers_def del: py_in.simps)
  next
    case i: (Some i)
    show ?thesis
    proof (cases "map_of kvs ''result''")
      case None
      then show ?thesis using i
        by (simp add: r store_response_def py_in_obj answers_def del: py_in.simps)
    next
      case (Some res)
      then have "is_hashable i" using assms i by (simp add: r storable_def)
      then obtain key where key: "hash_key i = Inr key" using is_hashable_key by blast
      show ?thesis using i Some key
        by (auto simp: r store_response_def py_in_obj answers_def result_of_def
              simp del: py_in.simps)
    qed
  qed
qed

lemma selected_Cons:
  "selected k (r # rs) =
     (case selected k rs of
        None \<Rightarrow> if answers k r then Some (result_of r) else None
      | Some res \<Rightarrow> Some res)"
  by (cases "filter (answers k) rs") (auto simp: selected_def)

lemma store_all_storable:
  "list_all storable rs \<Longrightarrow>
     \<exists>m'. store_all rs m = Inr m' \<and>
       (\<forall>k. m' (KNum k) = (case selected k rs of None \<Rightarrow> m (KNum k) | Some res \<Rightarrow> Some res))"
proof (induction rs arbitrary: m)
  case Nil
  then show ?case by (simp add: selected_def)
next
  case (Cons r rs)
  then have "storable r" and rest: "list_all storable rs" by simp_all
  then obtain m1 where m1: "store_response r m = Inr m1"
    and l1: "\<And>k. m1 (KNum k) = (if answers k r then Some (result_of r) else m (KNum k))"
    using store_response_storable [of r m] by blast
  obtain m' where m': "store_all rs m1 = Inr m'"
    and l': "\<And>k. m' (KNum k) = (case selected k rs of None \<Rightarrow> m1 (KNum k) | Some res \<Rightarrow> Some res)"
    using Cons.IH [OF rest, of m1] by blast
  have "store_all (r # rs) m = Inr m'" by (simp add: m1 m')
  moreover have "m' (KNum k) =
      (case selected k (r # rs) of None \<Rightarrow> m (KNum k) | Some res \<Rightarrow> Some res)" for k
    by (simp add: l' l1 selected_Cons split: option.splits)
  ultimately show ?case by blast
qed

lemma capability_selected:
  assumes "\<And>k. m (KNum k) = selected k rs"
  shows "capability m k key =
           (if selected_ok k rs then Inr (spec_capability k key rs) else Inl AttributeError)"
proof (cases "selected k rs")
  case None
  then show ?thesis
    using assms [of k] by (simp add: capability_def spec_capability_def selected_ok_def)
next
  case (Some res)
  then show ?thesis
    using assms [of k]
    by (cases res) (simp_all add: capability_def spec_capability_def selected_ok_def)
qed

text \<open>
  C10, as the code has it. Let \<open>json.loads\<close> raise nothing but \<open>JSONDecodeError\<close>, and
  let every recovered response be an object whose \<open>id\<close>, when it carries both \<open>id\<close>
  and \<open>result\<close>, is not a list or a dict. When the result selected for each of the
  ids 2, 3 and 4 is an object, the tools, prompts and resources are taken from the
  result of the last recovered response with a \<open>result\<close> whose id is 2, 3 and 4;
  responses without \<open>result\<close> or with another id are ignored, and a capability without
  such a response is the empty list. When one of the selected results is not an
  object, all three lists are empty; so they are when \<open>json.loads\<close> raises another
  exception on a candidate line.
\<close>

theorem capabilities_by_id:
  "(\<not> decoder_raises loads out \<and> list_all storable (spec_responses loads out) \<longrightarrow>
      get_mcp_capabilities loads (Completed out err) =
        (if selected_ok 2 (spec_responses loads out) \<and>
            selected_ok 3 (spec_responses loads out) \<and>
            selected_ok 4 (spec_responses loads out)
         then (spec_capability 2 ''tools'' (spec_responses loads out),
               spec_capability 3 ''prompts'' (spec_responses loads out),
               spec_capability 4 ''resources'' (spec_responses loads out))
         else no_capabilities)) \<and>
   (decoder_raises loads out \<longrightarrow>
      get_mcp_capabilities loads (Completed out err) = no_capabilities)"
proof (intro conjI impI)
  assume "\<not> decoder_raises loads out \<and> list_all storable (spec_responses loads out)"
  then have quiet: "\<not> decoder_raises loads out"
    and st: "list_all storable (spec_responses loads out)" by simp_all
  obtain m where m: "store_all (spec_responses loads out) Map.empty = Inr m"
    and l: "\<And>k. m (KNum k) =
              (case selected k (spec_responses loads out) of
                 None \<Rightarrow> Map.empty (KNum k) | Some res \<Rightarrow> Some res)"
    using store_all_storable [OF st, of Map.empty] by blast
  have sel: "m (KNum k) = selected k (spec_responses loads out)" for k
    by (simp add: l split: option.splits)
  have "store_loop loads (split_nl out) Map.empty =
          store_all (spec_responses loads out) Map.empty"
    using quiet
    unfolding decoder_raises_def candidate_lines_def spec_responses_def decoded_lines_def
    by (rule store_loop_quiet)
  then have loop: "store_loop loads (split_nl out) Map.empty = Inr m"
    using m by simp
  show "get_mcp_capabilities loads (Completed out err) =
        (if selected_ok 2 (spec_responses loads out) \<and>
            selected_ok 3 (spec_responses loads out) \<and>
            selected_ok 4 (spec_responses loads out)
         then (spec_capability 2 ''tools'' (spec_responses loads out),
               spec_capability 3 ''prompts'' (spec_responses loads out),
               spec_capability 4 ''resources'' (spec_responses loads out))
         else no_capabilities)"
    by (simp add: get_mcp_capabilities_def loop
          capability_selected [of m "spec_responses loads out", OF sel])
next
  assume "decoder_raises loads out"
  then have "isl (store_loop loads (split_nl out) Map.empty)"
    unfolding decoder_raises_def candidate_lines_def by (rule store_loop_raise)
  then show "get_mcp_capabilities loads (Completed out err) = no_capabilities"
    by (cases "store_loop loads (split_nl out) Map.empty")
       (simp_all add: get_mcp_capabilities_def)
qed

lemma mixed_candidates:
  \<open>candidate_lines mixed_out =
     [''{"jsonrpc":"2.0","id":1,"result":{"protocolVersion":"2024-11-05"}}'',
      ''{"jsonrpc":"2.0","id":4,"result":{"resources":[{"uri":"u"}]}}'',
      ''{"jsonrpc":"2.0","id":3,"error":{"message":"no prompts"}}'',
      ''{"jsonrpc":"2.0","id":2,"result":{"tools":[{"name":"t"}]}}'']\<close>
  by (simp add: candidate_lines_def mixed_out_def text_simps)

lemma mixed_quiet: "\<not> decoder_raises loads_plain mixed_out"
  by (simp add: decoder_raises_def mixed_candidates decode_simps startswith_def)

lemma mixed_responses:
  "spec_responses loads_plain mixed_out =
     [handshake_ok,
      JObj [(''jsonrpc'', JStr ''2.0''), (''id'', JInt 4),
            (''result'', JObj [(''resources'', JArr [JObj [(''uri'', JStr ''u'')]])])],
      JObj [(''jsonrpc'', JStr ''2.0''), (''id'', JInt 3),
            (''error'', JObj [(''message'', JStr ''no prompts'')])],
      JObj [(''jsonrpc'', JStr ''2.0''), (''id'', JInt 2),
            (''result'', JObj [(''tools'', JArr [JObj [(''name'', JStr ''t'')]])])]]"
  by (simp add: spec_responses_def decoded_lines_def mixed_candidates handshake_ok_def
        decode_simps startswith_def)

theorem capabilities_by_id_witness:
  "\<not> decoder_raises loads_plain mixed_out \<and>
   list_all storable (spec_responses loads_plain mixed_out) \<and>
   selected_ok 2 (spec_responses loads_plain mixed_out) \<and>
   selected_ok 3 (spec_responses loads_plain mixed_out) \<and>
   selected_ok 4 (spec_responses loads_plain mixed_out) \<and>
   get_mcp_capabilities loads_plain (Completed mixed_out []) =
     (JArr [JObj [(''name'', JStr ''t'')]], JArr [], JArr [JObj [(''uri'', JStr ''u'')]])"
  using capabilities_by_id [of loads_plain mixed_out "[]"]
  by (simp add: mixed_quiet mixed_responses handshake_ok_def storable_def selected_ok_def
        selected_def answers_def result_of_def spec_capability_def)

lemma null_result_candidates:
  \<open>candidate_lines null_result_out =
     [''{"jsonrpc":"2.0","id":2,"result":null}'',
      ''{"jsonrpc":"2.0","id":3,"result":{"prompts":[{"name":"p"}]}}'']\<close>
  by (simp add: candidate_lines_def null_result_out_def text_simps)

lemma null_result_quiet: "\<not> decoder_raises loads_plain null_result_out"
  by (simp add: decoder_raises_def null_result_candidates decode_simps startswith_def)

lemma null_result_responses:
  "spec_responses loads_plain null_result_out =
     [JObj [(''jsonrpc'', JStr ''2.0''), (''id'', JInt 2), (''result'', JNull)],
      JObj [(''jsonrpc'', JStr ''2.0''), (''id'', JInt 3),
            (''result'', JObj [(''prompts'', JArr [JObj [(''name'', JStr ''p'')]])])]]"
  by (simp add: spec_responses_def decoded_lines_def null_result_candidates
        decode_simps startswith_def)

text \<open>
  C10 as stated fails: when the response with id 2 has the result null, the lookup of
  the tools raises \<open>AttributeError\<close>, the handler returns three empty lists, and the
  prompts of the response with id 3 are lost.
\<close>

theorem capabilities_by_id_counterexample:
  "spec_responses loads_plain null_result_out =
     [JObj [(''jsonrpc'', JStr ''2.0''), (''id'', JInt 2), (''result'', JNull)],
      JObj [(''jsonrpc'', JStr ''2.0''), (''id'', JInt 3),
            (''result'', JObj [(''prompts'', JArr [JObj [(''name'', JStr ''p'')]])])]] \<and>
   get_mcp_capabilities loads_plain (Completed null_result_out []) = (JArr [], JArr [], JArr [])"
proof -
  have "store_loop loads_plain (split_nl null_result_out) Map.empty =
          store_all (spec_responses loads_plain null_result_out) Map.empty"
    using null_result_quiet
    unfolding decoder_raises_def candidate_lines_def spec_responses_def decoded_lines_def
    by (rule store_loop_quiet)
  then show ?thesis
    by (simp add: null_result_responses get_mcp_capabilities_def store_response_def
          capability_def no_capabilities_def)
qed

end
